theory Spec2Isabelle
  imports Complex_Main "HOL-Library.Word" "HOL-Library.AList" "HOL-Library.Sublist"
begin

section \<open>Raster images\<close>

text \<open>
  A decoded image is a grid of pixels (a list of rows) of 8-bit unsigned channel values,
  together with its mode. The converter brings every opened image to mode RGBA before it
  reads the channels; an RGB image gets a fully opaque alpha channel (255). The two modes
  of the data model, RGB and RGBA, are the ones modelled.
\<close>

type_synonym u8 = "8 word"
type_synonym rgba = "u8 \<times> u8 \<times> u8 \<times> u8"
type_synonym rgb = "u8 \<times> u8 \<times> u8"

datatype image = RGBA "rgba list list" | RGB "rgb list list"

fun convert_RGBA :: "image \<Rightarrow> rgba list list" where
  "convert_RGBA (RGBA arr) = arr"
| "convert_RGBA (RGB arr) = map (map (\<lambda>(r, g, b). (r, g, b, 255))) arr"

text \<open>
  The arithmetic of the source is done by numpy on 64-bit floats; the model computes with
  real numbers. \<open>u8_to_float\<close> is the promotion of a channel value to a float when it
  is divided by \<^verbatim>\<open>255.0\<close>; \<open>astype_uint8\<close> is the cast \<^verbatim>\<open>.astype(np.uint8)\<close>: the fraction is cut off
  (towards zero) and the integer is taken modulo 256.
\<close>

definition u8_to_float :: "u8 \<Rightarrow> real" where
  "u8_to_float w = real (unat w)"

definition astype_uint8 :: "real \<Rightarrow> u8" where
  "astype_uint8 x = word_of_int (if 0 \<le> x then \<lfloor>x\<rfloor> else \<lceil>x\<rceil>)"

section \<open>Specular to MER, per pixel\<close>

definition roughness_bedrock :: "u8 \<Rightarrow> u8" where
  "roughness_bedrock smoothness =
     (let smoothness_normalized = u8_to_float smoothness / 255;
          roughness_linear = (1 - smoothness_normalized) ^ 2
      in astype_uint8 (roughness_linear * 255))"

definition metalness :: "u8 \<Rightarrow> u8" where
  "metalness f0_metal =
     (let m0 = 0;
          m1 = (if 230 \<le> f0_metal then 255 else m0);
          metallic_threshold = 10;
          m2 = (if f0_metal < 230 \<and> metallic_threshold < f0_metal then f0_metal else m1)
      in m2)"

definition emission_bedrock :: "u8 \<Rightarrow> u8" where
  "emission_bedrock emission = (if emission < 255 then emission else 0)"

definition mer_pixel :: "rgba \<Rightarrow> rgb" where
  "mer_pixel p =
     (case p of (smoothness, f0_metal, porosity_sss, emission) \<Rightarrow>
        (metalness f0_metal, emission_bedrock emission, roughness_bedrock smoothness))"

definition mer_array :: "rgba list list \<Rightarrow> rgb list list" where
  "mer_array spec_array = map (map mer_pixel) spec_array"

section \<open>Normal map, per pixel\<close>

definition normal_z :: "u8 \<Rightarrow> u8 \<Rightarrow> u8" where
  "normal_z normal_x normal_y =
     (let nx_normalized = (u8_to_float normal_x / 255) * 2 - 1;
          ny_normalized = (u8_to_float normal_y / 255) * 2 - 1;
          nz_squared = 1 - (nx_normalized ^ 2 + ny_normalized ^ 2);
          nz_squared = max 0 nz_squared;
          nz_normalized = sqrt nz_squared
      in astype_uint8 ((nz_normalized + 1) / 2 * 255))"

definition bedrock_normal_pixel :: "rgba \<Rightarrow> rgb" where
  "bedrock_normal_pixel p =
     (case p of (normal_x, normal_y, ao, height) \<Rightarrow>
        (normal_x, normal_y, normal_z normal_x normal_y))"

definition bedrock_normal :: "rgba list list \<Rightarrow> rgb list list" where
  "bedrock_normal normal_array = map (map bedrock_normal_pixel) normal_array"

section \<open>Paths and the file system\<close>

text \<open>
  A path is the list of its components; \<open>path_name\<close>, \<open>path_parent\<close>, \<open>path_join\<close>
  and \<open>path_stem\<close> are \<^verbatim>\<open>Path.name\<close>, \<^verbatim>\<open>Path.parent\<close>, the operator \<^verbatim>\<open>/\<close> with a file
  name on its right, and \<^verbatim>\<open>Path.stem\<close>. The stem is the name up to its last dot, when
  that dot is neither the first nor the last character of the name.
\<close>

type_synonym path = "string list"

definition path_name :: "path \<Rightarrow> string" where
  "path_name p = (if p = [] then [] else last p)"

definition path_parent :: "path \<Rightarrow> path" where
  "path_parent p = butlast p"

definition path_join :: "path \<Rightarrow> string \<Rightarrow> path" where
  "path_join p s = p @ [s]"

definition rfind_dot :: "string \<Rightarrow> int" where
  "rfind_dot name =
     (if CHR ''.'' \<in> set name
      then int (length name) - int (length (takeWhile (\<lambda>c. c \<noteq> CHR ''.'') (rev name))) - 1
      else - 1)"

definition path_stem :: "path \<Rightarrow> string" where
  "path_stem p =
     (let name = path_name p; i = rfind_dot name
      in if 0 < i \<and> i < int (length name) - 1 then take (nat i) name else name)"

text \<open>
  The file system holds the content of every file, the enumeration of the entries below
  a directory (the order in which a recursive glob visits them), and for every path
  whether creating the directory or writing the file there succeeds. Directories are
  not tracked: \<open>mkdir\<close> can fail and otherwise leaves the files as they are.
\<close>

datatype json = JString string | JObject "(string \<times> json) list"

datatype file_content = ImageFile image | JsonFile json | OtherFile

record filesystem =
  files :: "path \<rightharpoonup> file_content"
  listing :: "path \<Rightarrow> path list"
  mkdir_ok :: "path \<Rightarrow> bool"
  write_ok :: "path \<Rightarrow> bool"

datatype error = FileNotFoundError | UnidentifiedImageError | OSError

definition image_open :: "filesystem \<Rightarrow> path \<Rightarrow> error + image" where
  "image_open fs p =
     (case files fs p of
        None \<Rightarrow> Inl FileNotFoundError
      | Some (ImageFile img) \<Rightarrow> Inr img
      | Some _ \<Rightarrow> Inl UnidentifiedImageError)"

definition mkdir :: "filesystem \<Rightarrow> path \<Rightarrow> error + filesystem" where
  "mkdir fs p = (if mkdir_ok fs p then Inr fs else Inl OSError)"

definition write_file :: "filesystem \<Rightarrow> path \<Rightarrow> file_content \<Rightarrow> error + filesystem" where
  "write_file fs p f =
     (if write_ok fs p then Inr (fs\<lparr>files := (files fs)(p \<mapsto> f)\<rparr>) else Inl OSError)"

section \<open>The converter and its counters\<close>

record stats =
  specular_converted :: int
  normal_converted :: int
  mer_generated :: int
  texture_sets_created :: int
  errors :: int

record state =
  conversion_stats :: stats
  disk :: filesystem

definition specular_try :: "filesystem \<Rightarrow> path \<Rightarrow> path \<Rightarrow> error + filesystem" where
  "specular_try fs specular_path mer_path =
     (case image_open fs specular_path of
        Inl e \<Rightarrow> Inl e
      | Inr specular_img \<Rightarrow>
          (let spec_array = convert_RGBA specular_img;
               mer_img = RGB (mer_array spec_array)
           in case mkdir fs (path_parent mer_path) of
                Inl e \<Rightarrow> Inl e
              | Inr fs1 \<Rightarrow> write_file fs1 mer_path (ImageFile mer_img)))"

definition convert_specular_to_mer :: "state \<Rightarrow> path \<Rightarrow> path \<Rightarrow> bool \<times> state" where
  "convert_specular_to_mer s specular_path mer_path =
     (case specular_try (disk s) specular_path mer_path of
        Inr fs' \<Rightarrow>
          (True, s\<lparr>disk := fs',
                   conversion_stats := (conversion_stats s)
                     \<lparr>specular_converted := specular_converted (conversion_stats s) + 1,
                      mer_generated := mer_generated (conversion_stats s) + 1\<rparr>\<rparr>)
      | Inl e \<Rightarrow>
          (False, s\<lparr>conversion_stats := (conversion_stats s)
                     \<lparr>errors := errors (conversion_stats s) + 1\<rparr>\<rparr>))"

definition normal_try :: "filesystem \<Rightarrow> path \<Rightarrow> path \<Rightarrow> error + filesystem" where
  "normal_try fs normal_path output_path =
     (case image_open fs normal_path of
        Inl e \<Rightarrow> Inl e
      | Inr normal_img \<Rightarrow>
          (let normal_array = convert_RGBA normal_img;
               normal_img_out = RGB (bedrock_normal normal_array)
           in case mkdir fs (path_parent output_path) of
                Inl e \<Rightarrow> Inl e
              | Inr fs1 \<Rightarrow> write_file fs1 output_path (ImageFile normal_img_out)))"

definition convert_normal_map :: "state \<Rightarrow> path \<Rightarrow> path \<Rightarrow> bool \<times> state" where
  "convert_normal_map s normal_path output_path =
     (case normal_try (disk s) normal_path output_path of
        Inr fs' \<Rightarrow>
          (True, s\<lparr>disk := fs',
                   conversion_stats := (conversion_stats s)
                     \<lparr>normal_converted := normal_converted (conversion_stats s) + 1\<rparr>\<rparr>)
      | Inl e \<Rightarrow>
          (False, s\<lparr>conversion_stats := (conversion_stats s)
                     \<lparr>errors := errors (conversion_stats s) + 1\<rparr>\<rparr>))"

section \<open>The texture-set descriptor\<close>

definition texture_set_record :: "string \<Rightarrow> bool \<Rightarrow> bool \<Rightarrow> json" where
  "texture_set_record texture_name has_mer has_normal =
     (let inner0 = [(''color'', JString texture_name)];
          inner1 = (if has_mer
                    then AList.update ''metalness_emissive_roughness''
                           (JString (texture_name @ ''_mer'')) inner0
                    else inner0);
          inner2 = (if has_normal
                    then AList.update ''normal'' (JString (texture_name @ ''_normal'')) inner1
                    else inner1)
      in JObject [(''format_version'', JString ''1.16.100''),
                  (''minecraft:texture_set'', JObject inner2)])"

definition texture_set_try ::
  "filesystem \<Rightarrow> string \<Rightarrow> path \<Rightarrow> bool \<Rightarrow> bool \<Rightarrow> error + filesystem" where
  "texture_set_try fs texture_name output_dir has_mer has_normal =
     (let texture_set = texture_set_record texture_name has_mer has_normal
      in case (if path_name output_dir \<noteq> ''blocks''
               then (let blocks_dir = path_join (path_parent (path_parent output_dir)) ''blocks''
                     in case mkdir fs blocks_dir of
                          Inl e \<Rightarrow> Inl e
                        | Inr fs1 \<Rightarrow>
                            Inr (fs1, path_join blocks_dir (texture_name @ ''.texture_set.json'')))
               else Inr (fs, path_join output_dir (texture_name @ ''.texture_set.json''))) of
           Inl e \<Rightarrow> Inl e
         | Inr (fs1, json_path) \<Rightarrow>
             (case mkdir fs1 (path_parent json_path) of
                Inl e \<Rightarrow> Inl e
              | Inr fs2 \<Rightarrow> write_file fs2 json_path (JsonFile texture_set)))"

definition create_texture_set_json ::
  "state \<Rightarrow> string \<Rightarrow> path \<Rightarrow> bool \<Rightarrow> bool \<Rightarrow> bool \<times> state" where
  "create_texture_set_json s texture_name output_dir has_mer has_normal =
     (case texture_set_try (disk s) texture_name output_dir has_mer has_normal of
        Inr fs' \<Rightarrow>
          (True, s\<lparr>disk := fs',
                   conversion_stats := (conversion_stats s)
                     \<lparr>texture_sets_created := texture_sets_created (conversion_stats s) + 1\<rparr>\<rparr>)
      | Inl e \<Rightarrow>
          (False, s\<lparr>conversion_stats := (conversion_stats s)
                     \<lparr>errors := errors (conversion_stats s) + 1\<rparr>\<rparr>))"

section \<open>Texture-set discovery\<close>

text \<open>
  The dictionaries of the source keep the order in which their keys were first inserted;
  they are association lists, and \<open>AList.update\<close> is the assignment \<^verbatim>\<open>d[k] = v\<close>.
  \<open>glob_textures\<close> is the list \<^verbatim>\<open>texture_files\<close>: one recursive glob per extension,
  in the order of the source. \<open>set_component\<close> is the body shared by the three branches
  of the loop: the set of the base name is created empty if it is missing, then the role
  is assigned in it (the lookup after the creation cannot fail; its \<open>None\<close> branch is
  never taken).
\<close>

type_synonym components = "(string \<times> path) list"
type_synonym pbr_sets = "(string \<times> components) list"

definition glob_textures :: "filesystem \<Rightarrow> path \<Rightarrow> path list" where
  "glob_textures fs texture_dir =
     concat (map (\<lambda>ext. filter (\<lambda>f. suffix ext (path_name f)) (listing fs texture_dir))
               [''.png'', ''.jpg'', ''.jpeg'', ''.tga''])"

definition set_component :: "pbr_sets \<Rightarrow> string \<Rightarrow> string \<Rightarrow> path \<Rightarrow> pbr_sets" where
  "set_component pbr_sets base_name role texture_file =
     (let pbr_sets1 = (if base_name \<notin> set (map fst pbr_sets)
                       then AList.update base_name [] pbr_sets else pbr_sets)
      in case map_of pbr_sets1 base_name of
           Some comps \<Rightarrow> AList.update base_name (AList.update role texture_file comps) pbr_sets1
         | None \<Rightarrow> pbr_sets1)"

definition detect_step :: "pbr_sets \<Rightarrow> path \<Rightarrow> pbr_sets" where
  "detect_step pbr_sets texture_file =
     (let name = path_stem texture_file
      in if suffix ''_s'' name
         then set_component pbr_sets (take (length name - 2) name) ''specular'' texture_file
         else if suffix ''_n'' name
         then set_component pbr_sets (take (length name - 2) name) ''normal'' texture_file
         else if \<not> list_ex (\<lambda>sfx. suffix sfx name)
                     [''_s'', ''_n'', ''_e'', ''_r'', ''_m'', ''_mer'', ''_normal'']
         then set_component pbr_sets name ''diffuse'' texture_file
         else pbr_sets)"

definition has_pbr_role :: "string \<times> components \<Rightarrow> bool" where
  "has_pbr_role kv =
     (''specular'' \<in> set (map fst (snd kv)) \<or> ''normal'' \<in> set (map fst (snd kv)))"

definition detect_in_files :: "path list \<Rightarrow> pbr_sets" where
  "detect_in_files texture_files = filter has_pbr_role (foldl detect_step [] texture_files)"

definition detect_pbr_textures :: "filesystem \<Rightarrow> path \<Rightarrow> pbr_sets" where
  "detect_pbr_textures fs texture_dir = detect_in_files (glob_textures fs texture_dir)"

section \<open>The batch\<close>

text \<open>\<open>str_remove old s\<close> is \<^verbatim>\<open>s.replace(old, '')\<close>.\<close>

function str_remove :: "string \<Rightarrow> string \<Rightarrow> string" where
  "str_remove old [] = []"
| "str_remove old (c # cs) =
     (if old \<noteq> [] \<and> prefix old (c # cs)
      then str_remove old (drop (length old) (c # cs))
      else c # str_remove old cs)"
  by pat_completeness auto
termination
  by (relation "measure (\<lambda>(old, s). length s)") auto

definition bedrock_base_name :: "(string \<rightharpoonup> string) option \<Rightarrow> string \<Rightarrow> string" where
  "bedrock_base_name texture_mappings set_name =
     (let diffuse_name = set_name @ ''.png''
      in case texture_mappings of
           None \<Rightarrow> set_name
         | Some m \<Rightarrow>
             (case m diffuse_name of
                Some bedrock_diffuse_name \<Rightarrow>
                  str_remove ''.tga'' (str_remove ''.png'' bedrock_diffuse_name)
              | None \<Rightarrow> set_name))"

text \<open>
  The body of the batch loop. \<open>specular_block\<close> and \<open>normal_block\<close> are its two guarded
  conversions: each returns the flag it sets (\<open>has_mer\<close>, \<open>has_normal\<close>) and the state
  after it.
\<close>

definition specular_block :: "path \<Rightarrow> string \<Rightarrow> state \<Rightarrow> components \<Rightarrow> bool \<times> state" where
  "specular_block blocks_dir base s comps =
     (case map_of comps ''specular'' of
        Some specular_path \<Rightarrow>
          convert_specular_to_mer s specular_path (path_join blocks_dir (base @ ''_mer.png''))
      | None \<Rightarrow> (False, s))"

definition normal_block :: "path \<Rightarrow> string \<Rightarrow> state \<Rightarrow> components \<Rightarrow> bool \<times> state" where
  "normal_block blocks_dir base s comps =
     (case map_of comps ''normal'' of
        Some normal_path \<Rightarrow>
          convert_normal_map s normal_path (path_join blocks_dir (base @ ''_normal.png''))
      | None \<Rightarrow> (False, s))"

definition process_set ::
  "path \<Rightarrow> (string \<rightharpoonup> string) option \<Rightarrow> state \<Rightarrow> string \<times> components \<Rightarrow> state" where
  "process_set bedrock_textures_dir texture_mappings s item =
     (case item of (set_name, comps) \<Rightarrow>
        (let base = bedrock_base_name texture_mappings set_name;
             blocks_dir = path_join bedrock_textures_dir ''blocks'';
             (has_mer, s1) = specular_block blocks_dir base s comps;
             (has_normal, s2) = normal_block blocks_dir base s1 comps
         in if has_mer \<or> has_normal
            then snd (create_texture_set_json s2 base blocks_dir has_mer has_normal)
            else s2))"

definition convert_pbr_textures ::
  "state \<Rightarrow> path \<Rightarrow> path \<Rightarrow> (string \<rightharpoonup> string) option \<Rightarrow> stats \<times> state" where
  "convert_pbr_textures s java_textures_dir bedrock_textures_dir texture_mappings =
     (let pbr_sets = detect_pbr_textures (disk s) java_textures_dir
      in if pbr_sets = [] then (conversion_stats s, s)
         else (let s' = foldl (process_set bedrock_textures_dir texture_mappings) s pbr_sets
               in (conversion_stats s', s')))"

section \<open>The discovery as the specification words it\<close>

text \<open>
  The classification of one file by its stem, in the words of the specification: the base
  name and the role the file contributes, or nothing. \<open>latest\<close> is the last enumerated
  file that contributes a given role to a given base name.
\<close>

definition classify :: "path \<Rightarrow> (string \<times> string) option" where
  "classify texture_file =
     (let stem = path_stem texture_file
      in if suffix ''_s'' stem then Some (take (length stem - 2) stem, ''specular'')
         else if suffix ''_n'' stem then Some (take (length stem - 2) stem, ''normal'')
         else if list_ex (\<lambda>sfx. suffix sfx stem) [''_e'', ''_r'', ''_m'', ''_mer'', ''_normal'']
         then None
         else Some (stem, ''diffuse''))"

definition latest :: "path list \<Rightarrow> string \<Rightarrow> string \<Rightarrow> path option" where
  "latest texture_files base role =
     foldl (\<lambda>acc f. if classify f = Some (base, role) then Some f else acc) None texture_files"

section \<open>Conditions on the input of a batch\<close>

text \<open>
  A specular or normal component of a texture set is corrupted when opening it as an image
  fails. \<open>is_source\<close> holds of the paths whose stem ends in \<open>_s\<close> or \<open>_n\<close>;
  \<open>pbr_sources\<close> says that the specular and normal files of a texture set are such
  paths, and \<open>same_sources\<close> relates two disks that differ at most in files that are
  no such paths.
\<close>

definition specular_corrupted :: "filesystem \<Rightarrow> string \<times> components \<Rightarrow> bool" where
  "specular_corrupted fs item =
     (case map_of (snd item) ''specular'' of
        None \<Rightarrow> False
      | Some p \<Rightarrow> (case image_open fs p of Inl e \<Rightarrow> True | Inr img \<Rightarrow> False))"

definition normal_corrupted :: "filesystem \<Rightarrow> string \<times> components \<Rightarrow> bool" where
  "normal_corrupted fs item =
     (case map_of (snd item) ''normal'' of
        None \<Rightarrow> False
      | Some p \<Rightarrow> (case image_open fs p of Inl e \<Rightarrow> True | Inr img \<Rightarrow> False))"

definition all_writable :: "filesystem \<Rightarrow> bool" where
  "all_writable fs = (\<forall>p. mkdir_ok fs p \<and> write_ok fs p)"

definition is_source :: "path \<Rightarrow> bool" where
  "is_source p = (suffix ''_s'' (path_stem p) \<or> suffix ''_n'' (path_stem p))"

definition pbr_sources :: "string \<times> components \<Rightarrow> bool" where
  "pbr_sources item =
     ((\<forall>p. map_of (snd item) ''specular'' = Some p \<longrightarrow> is_source p) \<and>
      (\<forall>p. map_of (snd item) ''normal'' = Some p \<longrightarrow> is_source p))"

definition same_sources :: "filesystem \<Rightarrow> filesystem \<Rightarrow> bool" where
  "same_sources fs fs' =
     (mkdir_ok fs' = mkdir_ok fs \<and> write_ok fs' = write_ok fs \<and>
      (\<forall>p. is_source p \<longrightarrow> files fs' p = files fs p))"

section \<open>A small pack, for the examples\<close>

text \<open>
  The counters of a fresh converter, and a disk with three texture sets below the
  directory \<open>java\<close>: \<open>stone\<close> (specular and normal map), \<open>dirt\<close> (a specular file
  that is not an image) and \<open>sand\<close> (specular map). A second normal map of \<open>stone\<close>,
  with other ambient-occlusion and height channels, lies in the directory \<open>other\<close>.
\<close>

definition init_stats :: stats where
  "init_stats = \<lparr>specular_converted = 0, normal_converted = 0, mer_generated = 0,
                 texture_sets_created = 0, errors = 0\<rparr>"

definition stone_s :: path where "stone_s = [''java'', ''stone_s.png'']"
definition stone_n :: path where "stone_n = [''java'', ''stone_n.png'']"
definition dirt_s :: path where "dirt_s = [''java'', ''dirt_s.png'']"
definition sand_s :: path where "sand_s = [''java'', ''sand_s.png'']"
definition other_n :: path where "other_n = [''other'', ''stone_n.png'']"
definition stone_mer :: path where "stone_mer = [''out'', ''blocks'', ''stone_mer.png'']"
definition stone_normal :: path where "stone_normal = [''out'', ''blocks'', ''stone_normal.png'']"
definition blocks_out :: path where "blocks_out = [''out'', ''blocks'']"
definition stone_json :: path where
  "stone_json = [''out'', ''blocks'', ''stone.texture_set.json'']"

definition example_disk :: filesystem where
  "example_disk =
     \<lparr>files = [stone_s \<mapsto> ImageFile (RGBA [[(50, 240, 7, 255)]]),
               stone_n \<mapsto> ImageFile (RGBA [[(255, 128, 3, 4)]]),
               dirt_s \<mapsto> OtherFile,
               sand_s \<mapsto> ImageFile (RGB [[(0, 5, 9), (255, 100, 0)]]),
               other_n \<mapsto> ImageFile (RGBA [[(255, 128, 77, 200)]])],
      listing = (\<lambda>d. if d = [''java''] then [stone_s, stone_n, dirt_s, sand_s] else []),
      mkdir_ok = (\<lambda>p. True),
      write_ok = (\<lambda>p. True)\<rparr>"

definition example_state :: state where
  "example_state = \<lparr>conversion_stats = init_stats, disk = example_disk\<rparr>"

section \<open>Channel arithmetic\<close>

lemma u8_to_float_range: "0 \<le> u8_to_float w \<and> u8_to_float w \<le> 255"
proof -
  have "unat w < 256" using unsigned_less[of w, where ?'a=nat] by simp
  then have "unat w \<le> 255" by linarith
  then have "real (unat w) \<le> real 255" by (simp only: of_nat_le_iff)
  then show ?thesis by (simp add: u8_to_float_def del: of_nat_unat)
qed

lemma unat_astype_uint8:
  assumes lo: "0 \<le> x" and hi: "x < 256"
  shows "unat (astype_uint8 x) = nat \<lfloor>x\<rfloor>"
proof -
  have f0: "0 \<le> \<lfloor>x\<rfloor>" using lo by simp
  have f1: "\<lfloor>x\<rfloor> < 256" using hi by (simp add: floor_less_iff)
  have "unat (word_of_int \<lfloor>x\<rfloor> :: u8) = nat \<lfloor>x\<rfloor>"
    using f0 f1 by (simp add: unat_eq_nat_uint uint_word_of_int)
  then show ?thesis using lo by (simp add: astype_uint8_def)
qed

lemma roughness_linear_range:
  "0 \<le> (1 - u8_to_float r / 255)^2 * 255 \<and> (1 - u8_to_float r / 255)^2 * 255 \<le> 255"
proof -
  have a: "0 \<le> 1 - u8_to_float r / 255" using u8_to_float_range[of r] by simp
  have b: "1 - u8_to_float r / 255 \<le> 1" using u8_to_float_range[of r] by simp
  have "(1 - u8_to_float r / 255)^2 \<le> 1" using a b by (simp add: power_le_one)
  then show ?thesis by simp
qed

lemma roughness_floor:
  "unat (roughness_bedrock r) = nat \<lfloor>(1 - real (unat r) / 255)^2 * 255\<rfloor>"
proof -
  have "unat (roughness_bedrock r) = nat \<lfloor>(1 - u8_to_float r / 255)^2 * 255\<rfloor>"
    unfolding roughness_bedrock_def Let_def
    by (rule unat_astype_uint8) (use roughness_linear_range[of r] in linarith)+
  then show ?thesis unfolding u8_to_float_def .
qed

lemma roughness_bounds: "unat (roughness_bedrock r) \<le> 255"
proof -
  have "unat (roughness_bedrock r) < 256"
    using unsigned_less[of "roughness_bedrock r", where ?'a=nat] by simp
  then show ?thesis by linarith
qed

lemma roughness_ends: "roughness_bedrock 255 = 0 \<and> roughness_bedrock 0 = 255"
  by (simp add: roughness_bedrock_def astype_uint8_def u8_to_float_def Let_def)

lemma metalness_cases:
  "metalness g = (if 230 \<le> g then 255 else if 10 < g then g else 0)"
  by (auto simp: metalness_def Let_def)

lemma nz_range:
  "255 / 2 \<le> (sqrt (max 0 (1 - (((u8_to_float x / 255) * 2 - 1)^2
                  + ((u8_to_float y / 255) * 2 - 1)^2))) + 1) / 2 * 255
   \<and> (sqrt (max 0 (1 - (((u8_to_float x / 255) * 2 - 1)^2
                  + ((u8_to_float y / 255) * 2 - 1)^2))) + 1) / 2 * 255 \<le> 255"
proof -
  define q where
    "q = max 0 (1 - (((u8_to_float x / 255) * 2 - 1)^2 + ((u8_to_float y / 255) * 2 - 1)^2))"
  define t where "t = sqrt q"
  have q0: "0 \<le> q" by (simp add: q_def)
  have q1: "q \<le> 1" by (simp add: q_def)
  have t0: "0 \<le> t" using q0 by (simp add: t_def)
  have t1: "t \<le> 1" using q1 by (simp add: t_def)
  have "255 / 2 \<le> (t + 1) / 2 * 255 \<and> (t + 1) / 2 * 255 \<le> 255" using t0 t1 by simp
  then show ?thesis unfolding t_def q_def .
qed

lemma normal_z_floor:
  "unat (normal_z x y) =
     nat \<lfloor>(sqrt (max 0 (1 - (((real (unat x) / 255) * 2 - 1)^2
                  + ((real (unat y) / 255) * 2 - 1)^2))) + 1) / 2 * 255\<rfloor>"
proof -
  have "unat (normal_z x y) =
     nat \<lfloor>(sqrt (max 0 (1 - (((u8_to_float x / 255) * 2 - 1)^2
                  + ((u8_to_float y / 255) * 2 - 1)^2))) + 1) / 2 * 255\<rfloor>"
    unfolding normal_z_def Let_def
    by (rule unat_astype_uint8) (use nz_range[of x y] in linarith)+
  then show ?thesis unfolding u8_to_float_def .
qed

lemma normal_z_bounds: "127 \<le> unat (normal_z x y) \<and> unat (normal_z x y) \<le> 255"
proof -
  define v where
    "v = (sqrt (max 0 (1 - (((u8_to_float x / 255) * 2 - 1)^2
                  + ((u8_to_float y / 255) * 2 - 1)^2))) + 1) / 2 * 255"
  have r: "255 / 2 \<le> v \<and> v \<le> 255" unfolding v_def by (rule nz_range)
  have "127 \<le> \<lfloor>v\<rfloor>" using r by (simp add: le_floor_iff)
  moreover have "\<lfloor>v\<rfloor> \<le> 255" using r by (simp add: floor_le_iff)
  moreover have "unat (normal_z x y) = nat \<lfloor>v\<rfloor>"
    unfolding v_def u8_to_float_def by (rule normal_z_floor)
  ultimately show ?thesis by linarith
qed

lemma normal_z_edge: "normal_z 255 128 = 127"
  by (simp add: normal_z_def astype_uint8_def u8_to_float_def Let_def power2_eq_square)

lemma mer_array_nth:
  "row < length a \<Longrightarrow> col < length (a ! row) \<Longrightarrow>
     mer_array a ! row ! col = mer_pixel (a ! row ! col)"
  by (simp add: mer_array_def)

lemma bedrock_normal_nth:
  "row < length a \<Longrightarrow> col < length (a ! row) \<Longrightarrow>
     bedrock_normal a ! row ! col = bedrock_normal_pixel (a ! row ! col)"
  by (simp add: bedrock_normal_def)

section \<open>Single conversions\<close>

lemma specular_success:
  assumes "convert_specular_to_mer s sp mp = (True, s')"
  shows "\<exists>img. image_open (disk s) sp = Inr img \<and>
           files (disk s') mp = Some (ImageFile (RGB (mer_array (convert_RGBA img))))"
  using assms
  by (auto simp: convert_specular_to_mer_def specular_try_def mkdir_def write_file_def Let_def
           split: sum.splits if_splits)

lemma normal_success:
  assumes "convert_normal_map s np outp = (True, s')"
  shows "\<exists>img. image_open (disk s) np = Inr img \<and>
           files (disk s') outp = Some (ImageFile (RGB (bedrock_normal (convert_RGBA img))))"
  using assms
  by (auto simp: convert_normal_map_def normal_try_def mkdir_def write_file_def Let_def
           split: sum.splits if_splits)

lemmas example_paths =
  stone_s_def stone_n_def dirt_s_def sand_s_def other_n_def stone_mer_def stone_normal_def
  blocks_out_def stone_json_def

lemmas example_simps =
  convert_specular_to_mer_def specular_try_def convert_normal_map_def normal_try_def
  mkdir_def write_file_def image_open_def Let_def example_state_def example_disk_def
  init_stats_def example_paths path_parent_def

lemma example_specular_run:
  "convert_specular_to_mer example_state stone_s stone_mer =
     (True, snd (convert_specular_to_mer example_state stone_s stone_mer))"
  by (simp add: example_simps)

lemma example_specular_ok: "fst (convert_specular_to_mer example_state stone_s stone_mer)"
  by (simp add: example_simps)

lemma example_specular_open:
  "image_open (disk example_state) stone_s = Inr (RGBA [[(50, 240, 7, 255)]])"
  by (simp add: example_simps)

lemma example_specular_out:
  "files (disk (snd (convert_specular_to_mer example_state stone_s stone_mer))) stone_mer =
     Some (ImageFile (RGB [[(255, 0, 164)]]))"
  by (simp add: example_simps mer_array_def mer_pixel_def metalness_def emission_bedrock_def
        roughness_bedrock_def astype_uint8_def u8_to_float_def power2_eq_square)

lemma example_normal_run:
  "convert_normal_map example_state stone_n stone_normal =
     (True, snd (convert_normal_map example_state stone_n stone_normal))"
  by (simp add: example_simps)

lemma example_normal_ok: "fst (convert_normal_map example_state stone_n stone_normal)"
  by (simp add: example_simps)

lemma example_normal_open:
  "image_open (disk example_state) stone_n = Inr (RGBA [[(255, 128, 3, 4)]])"
  by (simp add: example_simps)

lemma example_normal_out:
  "files (disk (snd (convert_normal_map example_state stone_n stone_normal))) stone_normal =
     Some (ImageFile (RGB [[(255, 128, 127)]]))"
  by (simp add: example_simps bedrock_normal_def bedrock_normal_pixel_def normal_z_edge)

section \<open>The channels of the MER map\<close>

text \<open>
  C4. After a successful call of \<open>convert_specular_to_mer\<close>, the file at the output path
  is an image whose metalness (red) channel at every pixel position is 255 where the
  reflectance channel G of the input pixel is at least 230, G itself where 10 < G < 230,
  and 0 where G is at most 10.
\<close>

theorem metalness_channel:
  assumes "image_open (disk s) specular_path = Inr img"
    and "convert_specular_to_mer s specular_path mer_path = (True, s')"
    and "row < length (convert_RGBA img)"
    and "col < length (convert_RGBA img ! row)"
    and "convert_RGBA img ! row ! col = (R, G, B, A)"
  shows "\<exists>mer. files (disk s') mer_path = Some (ImageFile (RGB mer)) \<and>
           fst (mer ! row ! col) = (if 230 \<le> G then 255 else if 10 < G then G else 0)"
proof -
  from specular_success[OF assms(2)] assms(1)
  have w: "files (disk s') mer_path = Some (ImageFile (RGB (mer_array (convert_RGBA img))))"
    by auto
  have "fst (mer_array (convert_RGBA img) ! row ! col) = metalness G"
    using assms(3-5) by (simp add: mer_array_nth mer_pixel_def)
  with w show ?thesis by (simp add: metalness_cases)
qed

theorem metalness_channel_witness:
  "image_open (disk example_state) stone_s = Inr (RGBA [[(50, 240, 7, 255)]]) \<and>
   fst (convert_specular_to_mer example_state stone_s stone_mer) \<and>
   (\<exists>mer. files (disk (snd (convert_specular_to_mer example_state stone_s stone_mer)))
             stone_mer = Some (ImageFile (RGB mer)) \<and>
          fst (mer ! 0 ! 0) = 255)"
  using example_specular_open example_specular_ok
    metalness_channel[OF example_specular_open example_specular_run, of 0 0 50 240 7 255]
  by simp

text \<open>
  C5. After a successful call of \<open>convert_specular_to_mer\<close>, the emissive (green) channel
  of every output pixel is the alpha value A of the input pixel where A < 255, and 0 where
  A = 255.
\<close>

theorem emissive_channel:
  assumes "image_open (disk s) specular_path = Inr img"
    and "convert_specular_to_mer s specular_path mer_path = (True, s')"
    and "row < length (convert_RGBA img)"
    and "col < length (convert_RGBA img ! row)"
    and "convert_RGBA img ! row ! col = (R, G, B, A)"
  shows "\<exists>mer. files (disk s') mer_path = Some (ImageFile (RGB mer)) \<and>
           fst (snd (mer ! row ! col)) = (if A < 255 then A else 0) \<and>
           (A = 255 \<longrightarrow> fst (snd (mer ! row ! col)) = 0)"
proof -
  from specular_success[OF assms(2)] assms(1)
  have w: "files (disk s') mer_path = Some (ImageFile (RGB (mer_array (convert_RGBA img))))"
    by auto
  have "fst (snd (mer_array (convert_RGBA img) ! row ! col)) = emission_bedrock A"
    using assms(3-5) by (simp add: mer_array_nth mer_pixel_def)
  with w show ?thesis by (simp add: emission_bedrock_def)
qed

theorem emissive_channel_witness:
  "image_open (disk example_state) stone_s = Inr (RGBA [[(50, 240, 7, 255)]]) \<and>
   fst (convert_specular_to_mer example_state stone_s stone_mer) \<and>
   (\<exists>mer. files (disk (snd (convert_specular_to_mer example_state stone_s stone_mer)))
             stone_mer = Some (ImageFile (RGB mer)) \<and>
          fst (snd (mer ! 0 ! 0)) = 0)"
  using example_specular_open example_specular_ok
    emissive_channel[OF example_specular_open example_specular_run, of 0 0 50 240 7 255]
  by simp

text \<open>
  C2, as the code has it. The roughness (blue) channel of every output pixel is
  \<open>(1 - R/255)\<^sup>2 * 255\<close> with its fraction cut off (the cast to an 8-bit integer
  truncates, it does not round); the value lies in [0,255], smoothness 255 gives
  roughness 0 and smoothness 0 gives roughness 255.
\<close>

theorem roughness_channel:
  assumes "image_open (disk s) specular_path = Inr img"
    and "convert_specular_to_mer s specular_path mer_path = (True, s')"
    and "row < length (convert_RGBA img)"
    and "col < length (convert_RGBA img ! row)"
    and "convert_RGBA img ! row ! col = (R, G, B, A)"
  shows "\<exists>mer. files (disk s') mer_path = Some (ImageFile (RGB mer)) \<and>
           unat (snd (snd (mer ! row ! col))) = nat \<lfloor>(1 - real (unat R) / 255)^2 * 255\<rfloor> \<and>
           unat (snd (snd (mer ! row ! col))) \<le> 255 \<and>
           (R = 255 \<longrightarrow> snd (snd (mer ! row ! col)) = 0) \<and>
           (R = 0 \<longrightarrow> snd (snd (mer ! row ! col)) = 255)"
proof -
  from specular_success[OF assms(2)] assms(1)
  have w: "files (disk s') mer_path = Some (ImageFile (RGB (mer_array (convert_RGBA img))))"
    by auto
  have px: "snd (snd (mer_array (convert_RGBA img) ! row ! col)) = roughness_bedrock R"
    using assms(3-5) by (simp add: mer_array_nth mer_pixel_def)
  have "unat (roughness_bedrock R) = nat \<lfloor>(1 - real (unat R) / 255)^2 * 255\<rfloor>"
    by (rule roughness_floor)
  moreover have "unat (roughness_bedrock R) \<le> 255" by (rule roughness_bounds)
  moreover have "R = 255 \<longrightarrow> roughness_bedrock R = 0" using roughness_ends by simp
  moreover have "R = 0 \<longrightarrow> roughness_bedrock R = 255" using roughness_ends by simp
  ultimately show ?thesis using w px by (simp del: of_nat_unat)
qed

theorem roughness_channel_witness:
  "image_open (disk example_state) stone_s = Inr (RGBA [[(50, 240, 7, 255)]]) \<and>
   fst (convert_specular_to_mer example_state stone_s stone_mer) \<and>
   (\<exists>mer. files (disk (snd (convert_specular_to_mer example_state stone_s stone_mer)))
             stone_mer = Some (ImageFile (RGB mer)) \<and>
          unat (snd (snd (mer ! 0 ! 0))) = nat \<lfloor>(1 - real (unat (50 :: u8)) / 255)^2 * 255\<rfloor>)"
proof -
  have "0 < length (convert_RGBA (RGBA [[(50, 240, 7, 255)]]))"
    and "0 < length (convert_RGBA (RGBA [[(50, 240, 7, 255)]]) ! 0)"
    and "convert_RGBA (RGBA [[(50, 240, 7, 255)]]) ! 0 ! 0 = (50, 240, 7, 255)"
    by simp_all
  from roughness_channel[OF example_specular_open example_specular_run this]
  show ?thesis using example_specular_open example_specular_ok by blast
qed

text \<open>
  C2 as the spec states it fails: for the input pixel with smoothness 50 the converter
  writes roughness 164, while \<open>round ((1 - 50/255)\<^sup>2 * 255) = 165\<close>.
\<close>

theorem roughness_round_counterexample:
  "image_open (disk example_state) stone_s = Inr (RGBA [[(50, 240, 7, 255)]]) \<and>
   fst (convert_specular_to_mer example_state stone_s stone_mer) \<and>
   files (disk (snd (convert_specular_to_mer example_state stone_s stone_mer))) stone_mer =
     Some (ImageFile (RGB [[(255, 0, 164)]])) \<and>
   round ((1 - real (unat (50 :: u8)) / 255)^2 * 255) = 165"
proof -
  have "round ((1 - real (unat (50 :: u8)) / 255)^2 * 255) = 165"
    by (simp add: round_def power2_eq_square)
  then show ?thesis
    using example_specular_open example_specular_ok example_specular_out by simp
qed

section \<open>The channels of the normal map\<close>

text \<open>
  C1, as the code has it. After a successful call of \<open>convert_normal_map\<close>, the Z (blue)
  channel of every output pixel is \<open>((nz + 1)/2) * 255\<close> with its fraction cut off (the
  cast truncates, it does not round), where \<open>nz = sqrt (max 0 (1 - nx\<^sup>2 - ny\<^sup>2))\<close>,
  \<open>nx = (X/255)*2 - 1\<close> and \<open>ny = (Y/255)*2 - 1\<close>; for the input pixel X = 255, Y = 128
  the output Z channel is 127.
\<close>

theorem normal_z_channel:
  assumes "image_open (disk s) normal_path = Inr img"
    and "convert_normal_map s normal_path output_path = (True, s')"
    and "row < length (convert_RGBA img)"
    and "col < length (convert_RGBA img ! row)"
    and "convert_RGBA img ! row ! col = (X, Y, AO, H)"
  shows "\<exists>out. files (disk s') output_path = Some (ImageFile (RGB out)) \<and>
           unat (snd (snd (out ! row ! col))) =
             nat \<lfloor>(sqrt (max 0 (1 - (((real (unat X) / 255) * 2 - 1)^2
                          + ((real (unat Y) / 255) * 2 - 1)^2))) + 1) / 2 * 255\<rfloor> \<and>
           (X = 255 \<and> Y = 128 \<longrightarrow> snd (snd (out ! row ! col)) = 127)"
proof -
  from normal_success[OF assms(2)] assms(1)
  have w: "files (disk s') output_path =
             Some (ImageFile (RGB (bedrock_normal (convert_RGBA img))))"
    by auto
  have px: "snd (snd (bedrock_normal (convert_RGBA img) ! row ! col)) = normal_z X Y"
    using assms(3-5) by (simp add: bedrock_normal_nth bedrock_normal_pixel_def)
  have "unat (normal_z X Y) =
          nat \<lfloor>(sqrt (max 0 (1 - (((real (unat X) / 255) * 2 - 1)^2
                       + ((real (unat Y) / 255) * 2 - 1)^2))) + 1) / 2 * 255\<rfloor>"
    by (rule normal_z_floor)
  moreover have "X = 255 \<and> Y = 128 \<longrightarrow> normal_z X Y = 127"
    using normal_z_edge by simp
  ultimately show ?thesis using w px by (simp del: of_nat_unat)
qed

theorem normal_z_channel_witness:
  "image_open (disk example_state) stone_n = Inr (RGBA [[(255, 128, 3, 4)]]) \<and>
   fst (convert_normal_map example_state stone_n stone_normal) \<and>
   (\<exists>out. files (disk (snd (convert_normal_map example_state stone_n stone_normal)))
             stone_normal = Some (ImageFile (RGB out)) \<and>
          snd (snd (out ! 0 ! 0)) = 127)"
proof -
  have "0 < length (convert_RGBA (RGBA [[(255, 128, 3, 4)]]))"
    and "0 < length (convert_RGBA (RGBA [[(255, 128, 3, 4)]]) ! 0)"
    and "convert_RGBA (RGBA [[(255, 128, 3, 4)]]) ! 0 ! 0 = (255, 128, 3, 4)"
    by simp_all
  from normal_z_channel[OF example_normal_open example_normal_run this]
  show ?thesis using example_normal_open example_normal_ok by blast
qed

text \<open>
  C1 as the spec states it fails: for the input pixel X = 255, Y = 128 the converter
  writes Z = 127, while \<open>round (((nz + 1)/2) * 255) = round 127.5 = 128\<close>.
\<close>

theorem normal_z_round_counterexample:
  "image_open (disk example_state) stone_n = Inr (RGBA [[(255, 128, 3, 4)]]) \<and>
   fst (convert_normal_map example_state stone_n stone_normal) \<and>
   files (disk (snd (convert_normal_map example_state stone_n stone_normal))) stone_normal =
     Some (ImageFile (RGB [[(255, 128, 127)]])) \<and>
   round ((sqrt (max 0 (1 - (((real (unat (255 :: u8)) / 255) * 2 - 1)^2
                   + ((real (unat (128 :: u8)) / 255) * 2 - 1)^2))) + 1) / 2 * 255) = 128"
proof -
  have "round ((sqrt (max 0 (1 - (((real (unat (255 :: u8)) / 255) * 2 - 1)^2
                   + ((real (unat (128 :: u8)) / 255) * 2 - 1)^2))) + 1) / 2 * 255) = 128"
    by (simp add: round_def power2_eq_square)
  then show ?thesis
    using example_normal_open example_normal_ok example_normal_out by simp
qed

text \<open>
  C10. After a successful call of \<open>convert_normal_map\<close>, on an image of either mode,
  every pixel of the image written has its Z (blue) channel in the range [127, 255].
\<close>

theorem normal_z_hemisphere:
  assumes "convert_normal_map s normal_path output_path = (True, s')"
  shows "\<exists>out. files (disk s') output_path = Some (ImageFile (RGB out)) \<and>
           (\<forall>r \<in> set out. \<forall>px \<in> set r.
              127 \<le> unat (snd (snd px)) \<and> unat (snd (snd px)) \<le> 255)"
proof -
  from normal_success[OF assms] obtain img where
    w: "files (disk s') output_path =
          Some (ImageFile (RGB (bedrock_normal (convert_RGBA img))))"
    by blast
  have "\<forall>r \<in> set (bedrock_normal (convert_RGBA img)). \<forall>px \<in> set r.
          127 \<le> unat (snd (snd px)) \<and> unat (snd (snd px)) \<le> 255"
    using normal_z_bounds
    by (auto simp: bedrock_normal_def bedrock_normal_pixel_def split: prod.splits)
  with w show ?thesis by blast
qed

theorem normal_z_hemisphere_witness:
  "fst (convert_normal_map example_state stone_n stone_normal) \<and>
   (\<exists>out. files (disk (snd (convert_normal_map example_state stone_n stone_normal)))
             stone_normal = Some (ImageFile (RGB out)) \<and>
          (\<forall>r \<in> set out. \<forall>px \<in> set r.
              127 \<le> unat (snd (snd px)) \<and> unat (snd (snd px)) \<le> 255))"
  using example_normal_ok normal_z_hemisphere[OF example_normal_run] by blast

lemma bedrock_normal_row_agree:
  "list_all2 (\<lambda>p q. fst p = fst q \<and> fst (snd p) = fst (snd q)) r1 r2 \<Longrightarrow>
     map bedrock_normal_pixel r1 = map bedrock_normal_pixel r2"
  by (induction rule: list_all2_induct)
     (auto simp: bedrock_normal_pixel_def split: prod.splits)

lemma bedrock_normal_agree:
  "list_all2 (list_all2 (\<lambda>p q. fst p = fst q \<and> fst (snd p) = fst (snd q))) a1 a2 \<Longrightarrow>
     bedrock_normal a1 = bedrock_normal a2"
  unfolding bedrock_normal_def
  by (induction rule: list_all2_induct) (auto dest: bedrock_normal_row_agree)

text \<open>
  C6. Two RGBA normal maps of the same dimensions that agree on the X (red) and Y (green)
  channel of every pixel, whatever their AO (blue) and height (alpha) channels are, are
  converted to the same output image.
\<close>

theorem ao_height_discarded:
  assumes "image_open (disk s1) p1 = Inr (RGBA a1)"
    and "image_open (disk s2) p2 = Inr (RGBA a2)"
    and "list_all2 (list_all2 (\<lambda>p q. fst p = fst q \<and> fst (snd p) = fst (snd q))) a1 a2"
    and "convert_normal_map s1 p1 o1 = (True, s1')"
    and "convert_normal_map s2 p2 o2 = (True, s2')"
  shows "\<exists>out. files (disk s1') o1 = Some (ImageFile (RGB out)) \<and>
                files (disk s2') o2 = Some (ImageFile (RGB out))"
proof -
  from normal_success[OF assms(4)] assms(1)
  have w1: "files (disk s1') o1 = Some (ImageFile (RGB (bedrock_normal a1)))" by auto
  from normal_success[OF assms(5)] assms(2)
  have w2: "files (disk s2') o2 = Some (ImageFile (RGB (bedrock_normal a2)))" by auto
  from bedrock_normal_agree[OF assms(3)] w1 w2 show ?thesis by simp
qed

lemma example_other_run:
  "convert_normal_map example_state other_n stone_normal =
     (True, snd (convert_normal_map example_state other_n stone_normal))"
  by (simp add: example_simps)

lemma example_other_open:
  "image_open (disk example_state) other_n = Inr (RGBA [[(255, 128, 77, 200)]])"
  by (simp add: example_simps)

theorem ao_height_discarded_witness:
  "image_open (disk example_state) stone_n = Inr (RGBA [[(255, 128, 3, 4)]]) \<and>
   image_open (disk example_state) other_n = Inr (RGBA [[(255, 128, 77, 200)]]) \<and>
   fst (convert_normal_map example_state stone_n stone_normal) \<and>
   fst (convert_normal_map example_state other_n stone_normal) \<and>
   (\<exists>out. files (disk (snd (convert_normal_map example_state stone_n stone_normal)))
             stone_normal = Some (ImageFile (RGB out)) \<and>
          files (disk (snd (convert_normal_map example_state other_n stone_normal)))
             stone_normal = Some (ImageFile (RGB out)))"
proof -
  have agree: "list_all2 (list_all2 (\<lambda>p q. fst p = fst q \<and> fst (snd p) = fst (snd q)))
                 [[(255, 128, 3, 4)]] [[(255 :: u8, 128 :: u8, 77 :: u8, 200 :: u8)]]"
    by simp
  have ok2: "fst (convert_normal_map example_state other_n stone_normal)"
    by (simp add: example_simps)
  from ao_height_discarded[OF example_normal_open example_other_open agree
         example_normal_run example_other_run]
  show ?thesis using example_normal_open example_other_open example_normal_ok ok2 by blast
qed

section \<open>The counters\<close>

text \<open>
  C9. A call of \<open>convert_specular_to_mer\<close> either returns True, with \<open>specular_converted\<close>
  and \<open>mer_generated\<close> each one higher and the other three counters as before, or returns
  False, with \<open>errors\<close> one higher and the other four counters as before. A call of
  \<open>convert_normal_map\<close> either returns True, with only \<open>normal_converted\<close> one higher, or
  returns False, with only \<open>errors\<close> one higher.
\<close>

theorem counters_frame:
  "(convert_specular_to_mer s specular_path mer_path = (r, s') \<longrightarrow>
      (r \<and> conversion_stats s' = (conversion_stats s)
              \<lparr>specular_converted := specular_converted (conversion_stats s) + 1,
               mer_generated := mer_generated (conversion_stats s) + 1\<rparr>) \<or>
      (\<not> r \<and> conversion_stats s' = (conversion_stats s)
              \<lparr>errors := errors (conversion_stats s) + 1\<rparr>)) \<and>
   (convert_normal_map s normal_path output_path = (r2, s2) \<longrightarrow>
      (r2 \<and> conversion_stats s2 = (conversion_stats s)
              \<lparr>normal_converted := normal_converted (conversion_stats s) + 1\<rparr>) \<or>
      (\<not> r2 \<and> conversion_stats s2 = (conversion_stats s)
              \<lparr>errors := errors (conversion_stats s) + 1\<rparr>))"
proof (intro conjI impI)
  assume "convert_specular_to_mer s specular_path mer_path = (r, s')"
  then show "(r \<and> conversion_stats s' = (conversion_stats s)
              \<lparr>specular_converted := specular_converted (conversion_stats s) + 1,
               mer_generated := mer_generated (conversion_stats s) + 1\<rparr>) \<or>
      (\<not> r \<and> conversion_stats s' = (conversion_stats s)
              \<lparr>errors := errors (conversion_stats s) + 1\<rparr>)"
    by (cases "specular_try (disk s) specular_path mer_path")
       (auto simp: convert_specular_to_mer_def)
next
  assume "convert_normal_map s normal_path output_path = (r2, s2)"
  then show "(r2 \<and> conversion_stats s2 = (conversion_stats s)
              \<lparr>normal_converted := normal_converted (conversion_stats s) + 1\<rparr>) \<or>
      (\<not> r2 \<and> conversion_stats s2 = (conversion_stats s)
              \<lparr>errors := errors (conversion_stats s) + 1\<rparr>)"
    by (cases "normal_try (disk s) normal_path output_path")
       (auto simp: convert_normal_map_def)
qed

lemma example_corrupt_run:
  "convert_specular_to_mer example_state dirt_s stone_mer =
     (False, snd (convert_specular_to_mer example_state dirt_s stone_mer))"
  by (simp add: example_simps)

theorem counters_frame_witness:
  "conversion_stats (snd (convert_specular_to_mer example_state stone_s stone_mer)) =
     init_stats\<lparr>specular_converted := 1, mer_generated := 1\<rparr> \<and>
   conversion_stats (snd (convert_specular_to_mer example_state dirt_s stone_mer)) =
     init_stats\<lparr>errors := 1\<rparr> \<and>
   conversion_stats (snd (convert_normal_map example_state stone_n stone_normal)) =
     init_stats\<lparr>normal_converted := 1\<rparr>"
proof -
  have st: "conversion_stats example_state = init_stats"
    by (simp add: example_state_def)
  have z: "specular_converted init_stats = 0" "mer_generated init_stats = 0"
    "errors init_stats = 0" "normal_converted init_stats = 0"
    by (simp_all add: init_stats_def)
  have a: "conversion_stats (snd (convert_specular_to_mer example_state stone_s stone_mer)) =
     init_stats\<lparr>specular_converted := 1, mer_generated := 1\<rparr>"
    using counters_frame[of example_state stone_s stone_mer True
            "snd (convert_specular_to_mer example_state stone_s stone_mer)"]
          example_specular_run st z by simp
  have b: "conversion_stats (snd (convert_specular_to_mer example_state dirt_s stone_mer)) =
     init_stats\<lparr>errors := 1\<rparr>"
    using counters_frame[of example_state dirt_s stone_mer False
            "snd (convert_specular_to_mer example_state dirt_s stone_mer)"]
          example_corrupt_run st z by simp
  have c: "conversion_stats (snd (convert_normal_map example_state stone_n stone_normal)) =
     init_stats\<lparr>normal_converted := 1\<rparr>"
    using counters_frame[of example_state _ _ _ _ stone_n stone_normal True
            "snd (convert_normal_map example_state stone_n stone_normal)"]
          example_normal_run st z by simp
  from a b c show ?thesis by simp
qed

section \<open>The descriptor emitter and the body of the batch loop\<close>

lemma texture_set_record_keys:
  "\<exists>inner. texture_set_record b has_mer has_normal =
      JObject [(''format_version'', JString ''1.16.100''), (''minecraft:texture_set'', JObject inner)] \<and>
     map_of inner ''color'' = Some (JString b) \<and>
     map_of inner ''metalness_emissive_roughness'' = (if has_mer then Some (JString (b @ ''_mer'')) else None) \<and>
     map_of inner ''normal'' = (if has_normal then Some (JString (b @ ''_normal'')) else None)"
  by (simp add: texture_set_record_def Let_def)

lemma path_name_join: "path_name (path_join d n) = n"
  by (simp add: path_name_def path_join_def)

lemma mkdir_Inr: "mkdir fs p = Inr fs' \<Longrightarrow> fs' = fs"
  by (simp add: mkdir_def split: if_splits)

lemma write_file_Inr:
  "write_file fs p f = Inr fs' \<Longrightarrow> fs' = fs\<lparr>files := (files fs)(p \<mapsto> f)\<rparr>"
  by (simp add: write_file_def split: if_splits)

lemma texture_set_try_Inr:
  assumes "texture_set_try fs b output_dir has_mer has_normal = Inr fs'"
  shows "\<exists>json_path. path_name json_path = b @ ''.texture_set.json'' \<and>
           fs' = fs\<lparr>files := (files fs)(json_path \<mapsto>
                    JsonFile (texture_set_record b has_mer has_normal))\<rparr>"
proof (cases "path_name output_dir = ''blocks''")
  case True
  define jp where "jp = path_join output_dir (b @ ''.texture_set.json'')"
  from assms True obtain fs2 where
    m: "mkdir fs (path_parent jp) = Inr fs2" and
    w: "write_file fs2 jp (JsonFile (texture_set_record b has_mer has_normal)) = Inr fs'"
    unfolding texture_set_try_def Let_def jp_def
    by (simp split: sum.splits)
  from mkdir_Inr[OF m] write_file_Inr[OF w]
  have "fs' = fs\<lparr>files := (files fs)(jp \<mapsto>
                    JsonFile (texture_set_record b has_mer has_normal))\<rparr>" by simp
  moreover have "path_name jp = b @ ''.texture_set.json''"
    unfolding jp_def by (rule path_name_join)
  ultimately show ?thesis by blast
next
  case False
  define jp where
    "jp = path_join (path_join (path_parent (path_parent output_dir)) ''blocks'')
            (b @ ''.texture_set.json'')"
  from assms False obtain fs1 fs2 where
    m0: "mkdir fs (path_join (path_parent (path_parent output_dir)) ''blocks'') = Inr fs1" and
    m: "mkdir fs1 (path_parent jp) = Inr fs2" and
    w: "write_file fs2 jp (JsonFile (texture_set_record b has_mer has_normal)) = Inr fs'"
    unfolding texture_set_try_def Let_def jp_def
    by (auto split: sum.splits)
  from mkdir_Inr[OF m0] mkdir_Inr[OF m] write_file_Inr[OF w]
  have "fs' = fs\<lparr>files := (files fs)(jp \<mapsto>
                    JsonFile (texture_set_record b has_mer has_normal))\<rparr>" by simp
  moreover have "path_name jp = b @ ''.texture_set.json''"
    unfolding jp_def by (rule path_name_join)
  ultimately show ?thesis by blast
qed

lemma specular_cases:
  "(\<exists>fs'. specular_try (disk s) sp mp = Inr fs' \<and>
      convert_specular_to_mer s sp mp =
        (True, s\<lparr>disk := fs', conversion_stats := (conversion_stats s)
                     \<lparr>specular_converted := specular_converted (conversion_stats s) + 1,
                      mer_generated := mer_generated (conversion_stats s) + 1\<rparr>\<rparr>)) \<or>
   (\<exists>e. specular_try (disk s) sp mp = Inl e \<and>
      convert_specular_to_mer s sp mp =
        (False, s\<lparr>conversion_stats := (conversion_stats s)
                     \<lparr>errors := errors (conversion_stats s) + 1\<rparr>\<rparr>))"
  by (cases "specular_try (disk s) sp mp") (simp_all add: convert_specular_to_mer_def)

lemma normal_cases:
  "(\<exists>fs'. normal_try (disk s) np outp = Inr fs' \<and>
      convert_normal_map s np outp =
        (True, s\<lparr>disk := fs', conversion_stats := (conversion_stats s)
                     \<lparr>normal_converted := normal_converted (conversion_stats s) + 1\<rparr>\<rparr>)) \<or>
   (\<exists>e. normal_try (disk s) np outp = Inl e \<and>
      convert_normal_map s np outp =
        (False, s\<lparr>conversion_stats := (conversion_stats s)
                     \<lparr>errors := errors (conversion_stats s) + 1\<rparr>\<rparr>))"
  by (cases "normal_try (disk s) np outp") (simp_all add: convert_normal_map_def)


lemma specular_step_frame:
  assumes "convert_specular_to_mer s sp mp = (r, s1)"
  shows "normal_converted (conversion_stats s1) = normal_converted (conversion_stats s)"
    and "texture_sets_created (conversion_stats s1) = texture_sets_created (conversion_stats s)"
    and "specular_converted (conversion_stats s1) = specular_converted (conversion_stats s) + (if r then 1 else 0)"
    and "\<not> r \<Longrightarrow> disk s1 = disk s"
  using assms specular_cases[of s sp mp] by auto

lemma normal_step_frame:
  assumes "convert_normal_map s np outp = (r, s1)"
  shows "specular_converted (conversion_stats s1) = specular_converted (conversion_stats s)"
    and "texture_sets_created (conversion_stats s1) = texture_sets_created (conversion_stats s)"
    and "normal_converted (conversion_stats s1) = normal_converted (conversion_stats s) + (if r then 1 else 0)"
    and "\<not> r \<Longrightarrow> disk s1 = disk s"
  using assms normal_cases[of s np outp] by auto

lemma descriptor_step_frame:
  "specular_converted (conversion_stats (snd (create_texture_set_json s b d hm hn))) = specular_converted (conversion_stats s)"
  "normal_converted (conversion_stats (snd (create_texture_set_json s b d hm hn))) = normal_converted (conversion_stats s)"
  by (cases "texture_set_try (disk s) b d hm hn"; simp add: create_texture_set_json_def)+

lemma specular_block_frame:
  assumes "specular_block bd base s comps = (r, s1)"
  shows "normal_converted (conversion_stats s1) = normal_converted (conversion_stats s)"
    and "texture_sets_created (conversion_stats s1) = texture_sets_created (conversion_stats s)"
    and "specular_converted (conversion_stats s1) = specular_converted (conversion_stats s) + (if r then 1 else 0)"
    and "\<not> r \<Longrightarrow> disk s1 = disk s"
  using assms specular_step_frame
  by (auto simp: specular_block_def split: option.splits)

lemma normal_block_frame:
  assumes "normal_block bd base s comps = (r, s1)"
  shows "specular_converted (conversion_stats s1) = specular_converted (conversion_stats s)"
    and "texture_sets_created (conversion_stats s1) = texture_sets_created (conversion_stats s)"
    and "normal_converted (conversion_stats s1) = normal_converted (conversion_stats s) + (if r then 1 else 0)"
    and "\<not> r \<Longrightarrow> disk s1 = disk s"
  using assms normal_step_frame
  by (auto simp: normal_block_def split: option.splits)

lemma process_set_nothing:
  assumes a: "specular_converted (conversion_stats (process_set dir tm s item)) = specular_converted (conversion_stats s)"
    and b: "normal_converted (conversion_stats (process_set dir tm s item)) = normal_converted (conversion_stats s)"
  shows "disk (process_set dir tm s item) = disk s \<and>
         texture_sets_created (conversion_stats (process_set dir tm s item)) = texture_sets_created (conversion_stats s)"
proof -
  obtain set_name comps where item: "item = (set_name, comps)" by (cases item)
  define base where "base = bedrock_base_name tm set_name"
  define bd where "bd = path_join dir ''blocks''"
  obtain r1 s1 where h1: "specular_block bd base s comps = (r1, s1)" by (cases "specular_block bd base s comps")
  obtain r2 s2 where h2: "normal_block bd base s1 comps = (r2, s2)" by (cases "normal_block bd base s1 comps")
  have ps: "process_set dir tm s item =
     (if r1 \<or> r2 then snd (create_texture_set_json s2 base bd r1 r2) else s2)"
    using h1[unfolded base_def bd_def] h2[unfolded base_def bd_def]
    by (simp add: item process_set_def Let_def base_def bd_def)
  have sc: "specular_converted (conversion_stats (process_set dir tm s item)) =
              specular_converted (conversion_stats s) + (if r1 then 1 else 0)"
    using specular_block_frame(3)[OF h1] normal_block_frame(1)[OF h2]
    by (simp add: ps descriptor_step_frame)
  have nc: "normal_converted (conversion_stats (process_set dir tm s item)) =
              normal_converted (conversion_stats s) + (if r2 then 1 else 0)"
    using specular_block_frame(1)[OF h1] normal_block_frame(3)[OF h2]
    by (simp add: ps descriptor_step_frame)
  from a sc have n1: "\<not> r1" by (simp split: if_splits)
  from b nc have n2: "\<not> r2" by (simp split: if_splits)
  have "process_set dir tm s item = s2" using ps n1 n2 by simp
  moreover have "disk s2 = disk s"
    using specular_block_frame(4)[OF h1 n1] normal_block_frame(4)[OF h2 n2] by simp
  moreover have "texture_sets_created (conversion_stats s2) = texture_sets_created (conversion_stats s)"
    using specular_block_frame(2)[OF h1] normal_block_frame(2)[OF h2] by simp
  ultimately show ?thesis by simp
qed

lemma example_descriptor_ok:
  "fst (create_texture_set_json example_state ''stone'' blocks_out False False)"
  by (simp add: create_texture_set_json_def texture_set_try_def example_simps path_name_def
        path_join_def)

lemma example_descriptor_out:
  "files (disk (snd (create_texture_set_json example_state ''stone'' blocks_out False False)))
     stone_json =
     Some (JsonFile (JObject [(''format_version'', JString ''1.16.100''),
                              (''minecraft:texture_set'', JObject [(''color'', JString ''stone'')])]))"
  by (simp add: create_texture_set_json_def texture_set_try_def texture_set_record_def
        example_simps path_name_def path_join_def)

lemma example_descriptor_before: "files (disk example_state) stone_json = None"
  by (simp add: example_simps)


lemma create_texture_set_json_True:
  assumes "create_texture_set_json s b output_dir has_mer has_normal = (True, s')"
  shows "\<exists>fs'. texture_set_try (disk s) b output_dir has_mer has_normal = Inr fs' \<and>
               disk s' = fs'"
  using assms
  by (cases "texture_set_try (disk s) b output_dir has_mer has_normal")
     (auto simp: create_texture_set_json_def)

text \<open>
  C3, as the code has it. Whenever its writes succeed, \<open>create_texture_set_json\<close> writes
  exactly one file, named after the base name, whose record holds the format version
  1.16.100, the color (the base name), the key \<open>metalness_emissive_roughness\<close> (base name
  plus \<open>_mer\<close>) if and only if \<open>has_mer\<close>, and the key \<open>normal\<close> (base name plus
  \<open>_normal\<close>) if and only if \<open>has_normal\<close>; this also when both flags are false, where
  the record holds the color alone. It is the batch loop that leaves the emitter uncalled:
  a texture set for which neither conversion succeeded leaves the disk and the counter
  \<open>texture_sets_created\<close> as they were.
\<close>

theorem descriptor_emitter:
  "(create_texture_set_json s b output_dir has_mer has_normal = (True, s') \<longrightarrow>
      (\<exists>json_path inner.
          path_name json_path = b @ ''.texture_set.json'' \<and>
          files (disk s') = (files (disk s))(json_path \<mapsto>
            JsonFile (JObject [(''format_version'', JString ''1.16.100''),
                               (''minecraft:texture_set'', JObject inner)])) \<and>
          map_of inner ''color'' = Some (JString b) \<and>
          map_of inner ''metalness_emissive_roughness'' =
            (if has_mer then Some (JString (b @ ''_mer'')) else None) \<and>
          map_of inner ''normal'' =
            (if has_normal then Some (JString (b @ ''_normal'')) else None))) \<and>
   (specular_converted (conversion_stats (process_set dir tm s item)) =
      specular_converted (conversion_stats s) \<and>
    normal_converted (conversion_stats (process_set dir tm s item)) =
      normal_converted (conversion_stats s) \<longrightarrow>
      disk (process_set dir tm s item) = disk s \<and>
      texture_sets_created (conversion_stats (process_set dir tm s item)) =
        texture_sets_created (conversion_stats s))"
proof (intro conjI impI)
  assume c: "create_texture_set_json s b output_dir has_mer has_normal = (True, s')"
  from create_texture_set_json_True[OF c] obtain fs' where
    t: "texture_set_try (disk s) b output_dir has_mer has_normal = Inr fs'" and d: "disk s' = fs'"
    by blast
  from texture_set_try_Inr[OF t] obtain json_path where
    n: "path_name json_path = b @ ''.texture_set.json''" and
    f: "fs' = (disk s)\<lparr>files := (files (disk s))(json_path \<mapsto>
                 JsonFile (texture_set_record b has_mer has_normal))\<rparr>"
    by blast
  from texture_set_record_keys[of b has_mer has_normal] obtain inner where
    r: "texture_set_record b has_mer has_normal =
          JObject [(''format_version'', JString ''1.16.100''),
                   (''minecraft:texture_set'', JObject inner)]" and
    k: "map_of inner ''color'' = Some (JString b)"
       "map_of inner ''metalness_emissive_roughness'' =
          (if has_mer then Some (JString (b @ ''_mer'')) else None)"
       "map_of inner ''normal'' = (if has_normal then Some (JString (b @ ''_normal'')) else None)"
    by blast
  have "files (disk s') = (files (disk s))(json_path \<mapsto>
          JsonFile (JObject [(''format_version'', JString ''1.16.100''),
                             (''minecraft:texture_set'', JObject inner)]))"
    using d f r by simp
  with n k show "\<exists>json_path inner.
          path_name json_path = b @ ''.texture_set.json'' \<and>
          files (disk s') = (files (disk s))(json_path \<mapsto>
            JsonFile (JObject [(''format_version'', JString ''1.16.100''),
                               (''minecraft:texture_set'', JObject inner)])) \<and>
          map_of inner ''color'' = Some (JString b) \<and>
          map_of inner ''metalness_emissive_roughness'' =
            (if has_mer then Some (JString (b @ ''_mer'')) else None) \<and>
          map_of inner ''normal'' =
            (if has_normal then Some (JString (b @ ''_normal'')) else None)"
    by blast
next
  assume a: "specular_converted (conversion_stats (process_set dir tm s item)) =
      specular_converted (conversion_stats s) \<and>
    normal_converted (conversion_stats (process_set dir tm s item)) =
      normal_converted (conversion_stats s)"
  from process_set_nothing[of dir tm s item] a
  show "disk (process_set dir tm s item) = disk s" by blast
  from process_set_nothing[of dir tm s item] a
  show "texture_sets_created (conversion_stats (process_set dir tm s item)) =
        texture_sets_created (conversion_stats s)" by blast
qed

lemma example_descriptor_mer_run:
  "create_texture_set_json example_state ''stone'' blocks_out True False =
     (True, snd (create_texture_set_json example_state ''stone'' blocks_out True False))"
  by (simp add: create_texture_set_json_def texture_set_try_def example_simps path_name_def
        path_join_def)

lemma example_dirt_set:
  "conversion_stats (process_set [''out''] None example_state (''dirt'', [(''specular'', dirt_s)]))
     = init_stats\<lparr>errors := 1\<rparr>"
  by (simp add: process_set_def specular_block_def normal_block_def bedrock_base_name_def
        example_simps path_join_def)

theorem descriptor_emitter_witness:
  "fst (create_texture_set_json example_state ''stone'' blocks_out True False) \<and>
   (\<exists>json_path inner.
      path_name json_path = ''stone.texture_set.json'' \<and>
      files (disk (snd (create_texture_set_json example_state ''stone'' blocks_out True False))) =
        (files (disk example_state))(json_path \<mapsto>
            JsonFile (JObject [(''format_version'', JString ''1.16.100''),
                               (''minecraft:texture_set'', JObject inner)])) \<and>
      map_of inner ''color'' = Some (JString ''stone'') \<and>
      map_of inner ''metalness_emissive_roughness'' = Some (JString ''stone_mer'') \<and>
      map_of inner ''normal'' = None) \<and>
   disk (process_set [''out''] None example_state (''dirt'', [(''specular'', dirt_s)])) =
     disk example_state"
proof -
  note t = descriptor_emitter[of example_state "''stone''" blocks_out True False
             "snd (create_texture_set_json example_state ''stone'' blocks_out True False)"
             "[''out'']" None "(''dirt'', [(''specular'', dirt_s)])"]
  have ok: "fst (create_texture_set_json example_state ''stone'' blocks_out True False)"
    using example_descriptor_mer_run by (metis fst_conv)
  have st: "conversion_stats example_state = init_stats" by (simp add: example_state_def)
  have same: "specular_converted (conversion_stats (process_set [''out''] None example_state
                 (''dirt'', [(''specular'', dirt_s)]))) =
               specular_converted (conversion_stats example_state) \<and>
             normal_converted (conversion_stats (process_set [''out''] None example_state
                 (''dirt'', [(''specular'', dirt_s)]))) =
               normal_converted (conversion_stats example_state)"
    by (simp add: example_dirt_set st)
  from t example_descriptor_mer_run same ok show ?thesis by simp
qed

text \<open>
  C3 as the spec states it fails: called with both flags false on a writable disk, the
  emitter is not a no-op; it writes a descriptor that holds the color alone.
\<close>

theorem descriptor_noop_counterexample:
  "files (disk example_state) stone_json = None \<and>
   fst (create_texture_set_json example_state ''stone'' blocks_out False False) \<and>
   files (disk (snd (create_texture_set_json example_state ''stone'' blocks_out False False)))
     stone_json =
     Some (JsonFile (JObject [(''format_version'', JString ''1.16.100''),
                              (''minecraft:texture_set'', JObject [(''color'', JString ''stone'')])]))"
  using example_descriptor_before example_descriptor_ok example_descriptor_out by simp

section \<open>Discovery\<close>

lemma latest_snoc:
  "latest (fs @ [f]) b role = (if classify f = Some (b, role) then Some f else latest fs b role)"
  by (simp add: latest_def)

lemma latest_Nil: "latest [] b role = None"
  by (simp add: latest_def)

lemma latest_Some:
  "latest fs b role = Some f \<Longrightarrow> f \<in> set fs \<and> classify f = Some (b, role)"
  by (induction fs rule: rev_induct) (auto simp: latest_snoc latest_Nil split: if_splits)

lemma latest_None:
  "latest fs b role = None \<longleftrightarrow> (\<forall>f \<in> set fs. classify f \<noteq> Some (b, role))"
  by (induction fs rule: rev_induct) (auto simp: latest_snoc latest_Nil)

lemma detect_step_classify:
  "detect_step S f = (case classify f of None \<Rightarrow> S | Some (b, role) \<Rightarrow> set_component S b role f)"
  by (simp add: detect_step_def classify_def Let_def)

lemma set_component_map_of:
  "map_of (set_component S b role f) =
     (map_of S)(b \<mapsto> AList.update role f (case map_of S b of None \<Rightarrow> [] | Some c \<Rightarrow> c))"
proof (cases "b \<in> set (map fst S)")
  case True
  then obtain c where c: "map_of S b = Some c"
    by (metis map_of_eq_None_iff not_Some_eq set_map)
  show ?thesis using True c by (simp add: set_component_def update_conv')
next
  case False
  then have n: "map_of S b = None" by (simp add: map_of_eq_None_iff)
  show ?thesis using False n by (simp add: set_component_def update_conv')
qed

lemma set_component_distinct:
  "distinct (map fst S) \<Longrightarrow> distinct (map fst (set_component S b role f))"
  by (auto simp: set_component_def Let_def distinct_update split: option.splits)


lemma detect_loop_invariant:
  "distinct (map fst (foldl detect_step [] fs)) \<and>
   (\<forall>b. case map_of (foldl detect_step [] fs) b of
          None \<Rightarrow> (\<forall>role. latest fs b role = None)
        | Some c \<Rightarrow> distinct (map fst c) \<and> (\<forall>role. map_of c role = latest fs b role))"
proof (induction fs rule: rev_induct)
  case Nil
  then show ?case by (simp add: latest_Nil)
next
  case (snoc f fs)
  define S where "S = foldl detect_step [] fs"
  have d: "distinct (map fst S)" using snoc unfolding S_def by blast
  have inv: "\<And>b. case map_of S b of
          None \<Rightarrow> (\<forall>role. latest fs b role = None)
        | Some c \<Rightarrow> distinct (map fst c) \<and> (\<forall>role. map_of c role = latest fs b role)"
    using snoc unfolding S_def by blast
  have step: "foldl detect_step [] (fs @ [f]) = detect_step S f" by (simp add: S_def)
  show ?case
  proof (cases "classify f")
    case None
    then have "detect_step S f = S" by (simp add: detect_step_classify)
    moreover have "\<And>b role. latest (fs @ [f]) b role = latest fs b role"
      using None by (simp add: latest_snoc)
    ultimately show ?thesis using d inv unfolding step by (simp cong: option.case_cong)
  next
    case (Some br)
    obtain b0 r0 where br: "br = (b0, r0)" by (cases br)
    have ds: "detect_step S f = set_component S b0 r0 f"
      using Some br by (simp add: detect_step_classify)
    define c0 where "c0 = (case map_of S b0 of None \<Rightarrow> [] | Some c \<Rightarrow> c)"
    have m: "map_of (detect_step S f) = (map_of S)(b0 \<mapsto> AList.update r0 f c0)"
      unfolding ds c0_def by (rule set_component_map_of)
    have c0d: "distinct (map fst c0)"
      using inv[of b0] unfolding c0_def by (simp split: option.splits)
    have c0l: "\<And>role. map_of c0 role = latest fs b0 role"
      using inv[of b0] unfolding c0_def by (simp split: option.splits)
    have dist: "distinct (map fst (detect_step S f))"
      unfolding ds using d by (rule set_component_distinct)
    have "\<And>b. case map_of (detect_step S f) b of
          None \<Rightarrow> (\<forall>role. latest (fs @ [f]) b role = None)
        | Some c \<Rightarrow> distinct (map fst c) \<and> (\<forall>role. map_of c role = latest (fs @ [f]) b role)"
    proof -
      fix b
      show "case map_of (detect_step S f) b of
          None \<Rightarrow> (\<forall>role. latest (fs @ [f]) b role = None)
        | Some c \<Rightarrow> distinct (map fst c) \<and> (\<forall>role. map_of c role = latest (fs @ [f]) b role)"
      proof (cases "b = b0")
        case True
        have "\<And>role. map_of (AList.update r0 f c0) role = latest (fs @ [f]) b0 role"
          using Some br c0l by (simp add: update_conv' latest_snoc)
        moreover have "distinct (map fst (AList.update r0 f c0))"
          using c0d by (simp add: distinct_update)
        ultimately show ?thesis using True m by simp
      next
        case False
        have "\<And>role. latest (fs @ [f]) b role = latest fs b role"
          using Some br False by (simp add: latest_snoc)
        moreover have "map_of (detect_step S f) b = map_of S b" using False m by simp
        ultimately show ?thesis using inv[of b] by (simp cong: option.case_cong)
      qed
    qed
    then show ?thesis using dist step by simp
  qed
qed

lemma map_of_filter_keys:
  assumes "distinct (map fst kvs)"
  shows "map_of (filter keep kvs) key =
           Option.bind (map_of kvs key) (\<lambda>c. if keep (key, c) then Some c else None)"
  using assms
proof (induction kvs)
  case Nil
  then show ?case by simp
next
  case (Cons kv kvs)
  obtain k0 c0 where kv: "kv = (k0, c0)" by (cases kv)
  have fresh: "k0 \<notin> fst ` set kvs" using Cons.prems kv by simp
  then have none: "map_of kvs k0 = None" by (simp add: map_of_eq_None_iff)
  have fnone: "map_of (filter keep kvs) k0 = None"
    using fresh by (auto simp: map_of_eq_None_iff)
  have ih: "map_of (filter keep kvs) key =
           Option.bind (map_of kvs key) (\<lambda>c. if keep (key, c) then Some c else None)"
    using Cons by simp
  show ?case
  proof (cases "key = k0")
    case True
    then show ?thesis using kv none fnone by simp
  next
    case False
    then show ?thesis using kv ih by simp
  qed
qed

lemma has_pbr_role_iff:
  "has_pbr_role (b, c) \<longleftrightarrow> (map_of c ''specular'' \<noteq> None \<or> map_of c ''normal'' \<noteq> None)"
  by (simp add: has_pbr_role_def map_of_eq_None_iff)

lemma detect_in_files_map_of:
  "map_of (detect_in_files fs) b =
     (case map_of (foldl detect_step [] fs) b of
        None \<Rightarrow> None
      | Some c \<Rightarrow> if latest fs b ''specular'' \<noteq> None \<or> latest fs b ''normal'' \<noteq> None
                  then Some c else None)"
proof -
  have d: "distinct (map fst (foldl detect_step [] fs))"
    using detect_loop_invariant[of fs] by blast
  have inv: "case map_of (foldl detect_step [] fs) b of
          None \<Rightarrow> (\<forall>role. latest fs b role = None)
        | Some c \<Rightarrow> distinct (map fst c) \<and> (\<forall>role. map_of c role = latest fs b role)"
    using detect_loop_invariant[of fs] by blast
  show ?thesis
  proof (cases "map_of (foldl detect_step [] fs) b")
    case None
    then show ?thesis unfolding detect_in_files_def map_of_filter_keys[OF d] by simp
  next
    case (Some c)
    with inv have "\<forall>role. map_of c role = latest fs b role" by simp
    then show ?thesis
      unfolding detect_in_files_def map_of_filter_keys[OF d]
      using Some by (simp add: has_pbr_role_iff)
  qed
qed

lemma detect_in_files_distinct: "distinct (map fst (detect_in_files fs))"
  unfolding detect_in_files_def
  using detect_loop_invariant[of fs] by (simp add: distinct_map_filter)

lemma detect_in_files_Some:
  assumes "map_of (detect_in_files fs) b = Some c"
  shows "distinct (map fst c) \<and> (\<forall>role. map_of c role = latest fs b role) \<and>
         (latest fs b ''specular'' \<noteq> None \<or> latest fs b ''normal'' \<noteq> None)"
proof -
  have inv: "case map_of (foldl detect_step [] fs) b of
          None \<Rightarrow> (\<forall>role. latest fs b role = None)
        | Some c \<Rightarrow> distinct (map fst c) \<and> (\<forall>role. map_of c role = latest fs b role)"
    using detect_loop_invariant[of fs] by blast
  from assms inv show ?thesis
    by (auto simp: detect_in_files_map_of split: option.splits if_splits)
qed

lemma detect_in_files_keys:
  "b \<in> set (map fst (detect_in_files fs)) \<longleftrightarrow>
     (latest fs b ''specular'' \<noteq> None \<or> latest fs b ''normal'' \<noteq> None)"
proof -
  have inv: "case map_of (foldl detect_step [] fs) b of
          None \<Rightarrow> (\<forall>role. latest fs b role = None)
        | Some c \<Rightarrow> distinct (map fst c) \<and> (\<forall>role. map_of c role = latest fs b role)"
    using detect_loop_invariant[of fs] by blast
  have "b \<in> set (map fst (detect_in_files fs)) \<longleftrightarrow> map_of (detect_in_files fs) b \<noteq> None"
    by (simp add: map_of_eq_None_iff)
  also have "\<dots> \<longleftrightarrow> (latest fs b ''specular'' \<noteq> None \<or> latest fs b ''normal'' \<noteq> None)"
    using inv by (auto simp: detect_in_files_map_of split: option.splits)
  finally show ?thesis .
qed

lemma stems:
  "path_stem stone_s = ''stone_s''" "path_stem stone_n = ''stone_n''"
  "path_stem dirt_s = ''dirt_s''" "path_stem sand_s = ''sand_s''"
  by (simp_all add: path_stem_def path_name_def rfind_dot_def example_paths Let_def)

lemma example_glob: "glob_textures example_disk [''java''] = [stone_s, stone_n, dirt_s, sand_s]"
  by (simp add: glob_textures_def example_disk_def path_name_def example_paths suffix_to_prefix)

lemma example_detect:
  "detect_pbr_textures example_disk [''java''] =
     [(''stone'', [(''specular'', stone_s), (''normal'', stone_n)]),
      (''dirt'', [(''specular'', dirt_s)]),
      (''sand'', [(''specular'', sand_s)])]"
  by (simp add: detect_pbr_textures_def example_glob detect_in_files_def detect_step_def stems
        set_component_def has_pbr_role_def suffix_to_prefix Let_def)


text \<open>
  C7. Texture-set discovery classifies every enumerated file by its stem as the
  specification says (\<open>classify\<close>): the returned mapping has one entry per base name, its
  base names are exactly those to which some file contributes the role specular or normal,
  and the set of a base name holds, for every role, the last enumerated file contributing
  that role (so a role is present exactly when some file contributes it, and files that
  contribute nothing appear nowhere).
\<close>

theorem discovery_classifies:
  "distinct (map fst (detect_pbr_textures fs texture_dir)) \<and>
   (b \<in> set (map fst (detect_pbr_textures fs texture_dir)) \<longleftrightarrow>
      (\<exists>f \<in> set (glob_textures fs texture_dir).
          classify f = Some (b, ''specular'') \<or> classify f = Some (b, ''normal''))) \<and>
   (map_of (detect_pbr_textures fs texture_dir) b = Some comps \<longrightarrow>
      distinct (map fst comps) \<and>
      (\<forall>role. map_of comps role = latest (glob_textures fs texture_dir) b role) \<and>
      (\<forall>role f. map_of comps role = Some f \<longrightarrow>
          f \<in> set (glob_textures fs texture_dir) \<and> classify f = Some (b, role)) \<and>
      (\<forall>role. map_of comps role = None \<longleftrightarrow>
          (\<forall>f \<in> set (glob_textures fs texture_dir). classify f \<noteq> Some (b, role))))"
proof (intro conjI impI)
  show "distinct (map fst (detect_pbr_textures fs texture_dir))"
    unfolding detect_pbr_textures_def by (rule detect_in_files_distinct)
next
  have "b \<in> set (map fst (detect_pbr_textures fs texture_dir)) \<longleftrightarrow>
          (latest (glob_textures fs texture_dir) b ''specular'' \<noteq> None \<or>
           latest (glob_textures fs texture_dir) b ''normal'' \<noteq> None)"
    unfolding detect_pbr_textures_def by (rule detect_in_files_keys)
  then show "b \<in> set (map fst (detect_pbr_textures fs texture_dir)) \<longleftrightarrow>
      (\<exists>f \<in> set (glob_textures fs texture_dir).
          classify f = Some (b, ''specular'') \<or> classify f = Some (b, ''normal''))"
    by (auto simp: latest_None)
next
  assume a: "map_of (detect_pbr_textures fs texture_dir) b = Some comps"
  then have a': "map_of (detect_in_files (glob_textures fs texture_dir)) b = Some comps"
    by (simp add: detect_pbr_textures_def)
  note r = detect_in_files_Some[OF a']
  from r show "distinct (map fst comps)" by blast
  from r show l: "\<forall>role. map_of comps role = latest (glob_textures fs texture_dir) b role"
    by blast
  from l show "\<forall>role f. map_of comps role = Some f \<longrightarrow>
          f \<in> set (glob_textures fs texture_dir) \<and> classify f = Some (b, role)"
    by (auto dest: latest_Some)
  from l show "\<forall>role. map_of comps role = None \<longleftrightarrow>
          (\<forall>f \<in> set (glob_textures fs texture_dir). classify f \<noteq> Some (b, role))"
    by (simp add: latest_None)
qed

theorem discovery_classifies_witness:
  "map_of (detect_pbr_textures example_disk [''java'']) ''stone'' =
     Some [(''specular'', stone_s), (''normal'', stone_n)] \<and>
   ''stone'' \<in> set (map fst (detect_pbr_textures example_disk [''java''])) \<and>
   latest (glob_textures example_disk [''java'']) ''stone'' ''specular'' = Some stone_s \<and>
   stone_s \<in> set (glob_textures example_disk [''java'']) \<and>
   classify stone_s = Some (''stone'', ''specular'') \<and>
   classify stone_n \<noteq> Some (''stone'', ''diffuse'')"
proof -
  have m: "map_of (detect_pbr_textures example_disk [''java'']) ''stone'' =
     Some [(''specular'', stone_s), (''normal'', stone_n)]"
    by (simp add: example_detect)
  note t = discovery_classifies[of example_disk "[''java'']" "''stone''"
             "[(''specular'', stone_s), (''normal'', stone_n)]"]
  from t m have l: "\<forall>role. map_of [(''specular'', stone_s), (''normal'', stone_n)] role =
                      latest (glob_textures example_disk [''java'']) ''stone'' role"
    by blast
  from t m have s: "\<forall>role f. map_of [(''specular'', stone_s), (''normal'', stone_n)] role = Some f \<longrightarrow>
          f \<in> set (glob_textures example_disk [''java'']) \<and> classify f = Some (''stone'', role)"
    by blast
  from t m have n: "\<forall>role. map_of [(''specular'', stone_s), (''normal'', stone_n)] role = None \<longleftrightarrow>
          (\<forall>f \<in> set (glob_textures example_disk [''java'']). classify f \<noteq> Some (''stone'', role))"
    by blast
  have 1: "latest (glob_textures example_disk [''java'']) ''stone'' ''specular'' = Some stone_s"
    using l[rule_format, of "''specular''"] by simp
  have 2: "stone_s \<in> set (glob_textures example_disk [''java'']) \<and>
           classify stone_s = Some (''stone'', ''specular'')"
    using s[rule_format, of "''specular''" stone_s] by simp
  have 3: "\<forall>f \<in> set (glob_textures example_disk [''java'']). classify f \<noteq> Some (''stone'', ''diffuse'')"
    using n[rule_format, of "''diffuse''"] by simp
  have 4: "''stone'' \<in> set (map fst (detect_pbr_textures example_disk [''java'']))"
    by (simp add: example_detect)
  have 5: "classify stone_n \<noteq> Some (''stone'', ''diffuse'')"
    using 3 by (simp add: example_glob)
  from m 1 2 4 5 show ?thesis by blast
qed

section \<open>The batch on a writable disk\<close>

lemma rfind_dot_ext:
  "CHR ''.'' \<notin> set ext \<Longrightarrow> rfind_dot (x @ CHR ''.'' # ext) = int (length x)"
proof -
  assume n: "CHR ''.'' \<notin> set ext"
  have "takeWhile (\<lambda>c. c \<noteq> CHR ''.'') (rev ext @ CHR ''.'' # rev x) =
          rev ext @ takeWhile (\<lambda>c. c \<noteq> CHR ''.'') (CHR ''.'' # rev x)"
    using n by (intro takeWhile_append2) auto
  then have "takeWhile (\<lambda>c. c \<noteq> CHR ''.'') (rev (x @ CHR ''.'' # ext)) = rev ext"
    by simp
  then show ?thesis by (simp add: rfind_dot_def)
qed

lemma path_stem_ext:
  assumes "x \<noteq> []" and "ext \<noteq> []" and "CHR ''.'' \<notin> set ext"
  shows "path_stem (path_join d (x @ CHR ''.'' # ext)) = x"
proof -
  have "0 < length x" using assms(1) by simp
  moreover have "0 < length ext" using assms(2) by simp
  ultimately show ?thesis
    using rfind_dot_ext[OF assms(3), of x]
    by (simp add: path_stem_def path_name_join Let_def)
qed

lemma stem_mer: "path_stem (path_join d (b @ ''_mer.png'')) = b @ ''_mer''"
  using path_stem_ext[of "b @ ''_mer''" "''png''" d] by simp

lemma stem_normal: "path_stem (path_join d (b @ ''_normal.png'')) = b @ ''_normal''"
  using path_stem_ext[of "b @ ''_normal''" "''png''" d] by simp

lemma stem_json: "path_stem (path_join d (b @ ''.texture_set.json'')) = b @ ''.texture_set''"
  using path_stem_ext[of "b @ ''.texture_set''" "''json''" d] by simp

lemma not_source_out:
  "\<not> is_source (path_join d (b @ ''_mer.png''))"
  "\<not> is_source (path_join d (b @ ''_normal.png''))"
  "\<not> is_source (path_join d (b @ ''.texture_set.json''))"
  by (simp_all add: is_source_def stem_mer stem_normal stem_json suffix_to_prefix)


lemma same_sources_refl: "same_sources fs fs"
  by (simp add: same_sources_def)

lemma same_sources_trans:
  "same_sources a b \<Longrightarrow> same_sources b c \<Longrightarrow> same_sources a c"
  by (simp add: same_sources_def)

lemma same_sources_write:
  "\<not> is_source p \<Longrightarrow> same_sources fs (fs\<lparr>files := (files fs)(p \<mapsto> f)\<rparr>)"
  by (auto simp: same_sources_def)

lemma same_sources_writable:
  "same_sources fs fs' \<Longrightarrow> all_writable fs \<Longrightarrow> all_writable fs'"
  by (simp add: same_sources_def all_writable_def)

lemma same_sources_open:
  "same_sources fs fs' \<Longrightarrow> is_source p \<Longrightarrow> image_open fs' p = image_open fs p"
  by (simp add: same_sources_def image_open_def)

lemma same_sources_corrupted:
  assumes "same_sources fs fs'" and "pbr_sources item"
  shows "specular_corrupted fs' item = specular_corrupted fs item"
    and "normal_corrupted fs' item = normal_corrupted fs item"
  using assms
  by (auto simp: specular_corrupted_def normal_corrupted_def pbr_sources_def
        same_sources_open split: option.splits)

lemma specular_try_writable:
  assumes "all_writable fs"
  shows "specular_try fs sp mp =
     (case image_open fs sp of
        Inl e \<Rightarrow> Inl e
      | Inr img \<Rightarrow> Inr (fs\<lparr>files := (files fs)(mp \<mapsto>
                      ImageFile (RGB (mer_array (convert_RGBA img))))\<rparr>))"
  using assms
  by (simp add: specular_try_def all_writable_def mkdir_def write_file_def Let_def
        split: sum.splits)

lemma normal_try_writable:
  assumes "all_writable fs"
  shows "normal_try fs np outp =
     (case image_open fs np of
        Inl e \<Rightarrow> Inl e
      | Inr img \<Rightarrow> Inr (fs\<lparr>files := (files fs)(outp \<mapsto>
                      ImageFile (RGB (bedrock_normal (convert_RGBA img))))\<rparr>))"
  using assms
  by (simp add: normal_try_def all_writable_def mkdir_def write_file_def Let_def
        split: sum.splits)

lemma texture_set_try_writable:
  assumes "all_writable fs"
  shows "texture_set_try fs b (path_join d ''blocks'') hm hn =
     Inr (fs\<lparr>files := (files fs)(path_join (path_join d ''blocks'') (b @ ''.texture_set.json'')
            \<mapsto> JsonFile (texture_set_record b hm hn))\<rparr>)"
  using assms
  by (simp add: texture_set_try_def path_name_join all_writable_def mkdir_def write_file_def
        Let_def)

lemma specular_block_writable:
  assumes w: "all_writable (disk s)" and b: "specular_block bd base s comps = (r, s1)"
  shows "r = (map_of comps ''specular'' \<noteq> None \<and> \<not> specular_corrupted (disk s) (nm, comps))"
    and "errors (conversion_stats s1) = errors (conversion_stats s) +
           (if specular_corrupted (disk s) (nm, comps) then 1 else 0)"
    and "mer_generated (conversion_stats s1) = mer_generated (conversion_stats s) +
           (if r then 1 else 0)"
    and "same_sources (disk s) (disk s1)"
proof -
  show "r = (map_of comps ''specular'' \<noteq> None \<and> \<not> specular_corrupted (disk s) (nm, comps))"
    using b
    by (auto simp: specular_block_def convert_specular_to_mer_def specular_try_writable[OF w]
          specular_corrupted_def split: option.splits sum.splits)
  show "errors (conversion_stats s1) = errors (conversion_stats s) +
           (if specular_corrupted (disk s) (nm, comps) then 1 else 0)"
    using b
    by (auto simp: specular_block_def convert_specular_to_mer_def specular_try_writable[OF w]
          specular_corrupted_def split: option.splits sum.splits)
  show "mer_generated (conversion_stats s1) = mer_generated (conversion_stats s) +
           (if r then 1 else 0)"
    using b
    by (auto simp: specular_block_def convert_specular_to_mer_def specular_try_writable[OF w]
          split: option.splits sum.splits)
  show "same_sources (disk s) (disk s1)"
    using b
    by (auto simp: specular_block_def convert_specular_to_mer_def specular_try_writable[OF w]
          same_sources_refl same_sources_write not_source_out split: option.splits sum.splits)
qed

lemma normal_block_writable:
  assumes w: "all_writable (disk s)" and b: "normal_block bd base s comps = (r, s1)"
  shows "errors (conversion_stats s1) = errors (conversion_stats s) +
           (if normal_corrupted (disk s) (nm, comps) then 1 else 0)"
    and "mer_generated (conversion_stats s1) = mer_generated (conversion_stats s)"
    and "same_sources (disk s) (disk s1)"
proof -
  show "errors (conversion_stats s1) = errors (conversion_stats s) +
           (if normal_corrupted (disk s) (nm, comps) then 1 else 0)"
    using b
    by (auto simp: normal_block_def convert_normal_map_def normal_try_writable[OF w]
          normal_corrupted_def split: option.splits sum.splits)
  show "mer_generated (conversion_stats s1) = mer_generated (conversion_stats s)"
    using b
    by (auto simp: normal_block_def convert_normal_map_def normal_try_writable[OF w]
          split: option.splits sum.splits)
  show "same_sources (disk s) (disk s1)"
    using b
    by (auto simp: normal_block_def convert_normal_map_def normal_try_writable[OF w]
          same_sources_refl same_sources_write not_source_out split: option.splits sum.splits)
qed

lemma descriptor_writable:
  assumes w: "all_writable (disk s)"
  shows "errors (conversion_stats (snd (create_texture_set_json s b (path_join d ''blocks'') hm hn)))
           = errors (conversion_stats s)"
    and "mer_generated (conversion_stats
           (snd (create_texture_set_json s b (path_join d ''blocks'') hm hn)))
           = mer_generated (conversion_stats s)"
    and "same_sources (disk s)
           (disk (snd (create_texture_set_json s b (path_join d ''blocks'') hm hn)))"
  by (simp_all add: create_texture_set_json_def texture_set_try_writable[OF w]
        same_sources_write not_source_out)

lemma process_set_writable:
  assumes w: "all_writable (disk s)" and src: "pbr_sources item"
    and n: "\<not> normal_corrupted (disk s) item"
  shows "errors (conversion_stats (process_set dir tm s item)) =
           errors (conversion_stats s) + (if specular_corrupted (disk s) item then 1 else 0)"
    and "mer_generated (conversion_stats (process_set dir tm s item)) =
           mer_generated (conversion_stats s) +
           (if map_of (snd item) ''specular'' \<noteq> None \<and> \<not> specular_corrupted (disk s) item
            then 1 else 0)"
    and "same_sources (disk s) (disk (process_set dir tm s item))"
proof -
  obtain nm comps where item: "item = (nm, comps)" by (cases item)
  define base where "base = bedrock_base_name tm nm"
  define bd where "bd = path_join dir ''blocks''"
  obtain r1 s1 where h1: "specular_block bd base s comps = (r1, s1)"
    by (cases "specular_block bd base s comps")
  obtain r2 s2 where h2: "normal_block bd base s1 comps = (r2, s2)"
    by (cases "normal_block bd base s1 comps")
  have ps: "process_set dir tm s item =
     (if r1 \<or> r2 then snd (create_texture_set_json s2 base bd r1 r2) else s2)"
    using h1[unfolded base_def bd_def] h2[unfolded base_def bd_def]
    by (simp add: item process_set_def Let_def base_def bd_def)
  note b11 = specular_block_writable(1)[OF w h1, of nm]
  note b12 = specular_block_writable(2)[OF w h1, of nm]
  note b13 = specular_block_writable(3)[OF w h1]
  note b14 = specular_block_writable(4)[OF w h1]
  have w1: "all_writable (disk s1)" using same_sources_writable[OF b14 w] .
  have n1: "\<not> normal_corrupted (disk s1) (nm, comps)"
    using same_sources_corrupted(2)[OF b14 src] n item by simp
  note b21 = normal_block_writable(1)[OF w1 h2, of nm]
  note b22 = normal_block_writable(2)[OF w1 h2]
  note b23 = normal_block_writable(3)[OF w1 h2]
  have w2: "all_writable (disk s2)" using same_sources_writable[OF b23 w1] .
  have ss2: "same_sources (disk s) (disk s2)"
    using same_sources_trans[OF b14 b23] .
  have e2: "errors (conversion_stats s2) =
              errors (conversion_stats s) + (if specular_corrupted (disk s) item then 1 else 0)"
    using b12 b21 n1 item by simp
  have m2: "mer_generated (conversion_stats s2) =
              mer_generated (conversion_stats s) + (if r1 then 1 else 0)"
    using b13 b22 by simp
  have r1: "r1 = (map_of (snd item) ''specular'' \<noteq> None \<and> \<not> specular_corrupted (disk s) item)"
    using b11 item by simp
  note d = descriptor_writable[OF w2, of base dir r1 r2, folded bd_def]
  show "errors (conversion_stats (process_set dir tm s item)) =
           errors (conversion_stats s) + (if specular_corrupted (disk s) item then 1 else 0)"
    using e2 d(1) by (simp add: ps)
  show "mer_generated (conversion_stats (process_set dir tm s item)) =
           mer_generated (conversion_stats s) +
           (if map_of (snd item) ''specular'' \<noteq> None \<and> \<not> specular_corrupted (disk s) item
            then 1 else 0)"
  proof -
    have "mer_generated (conversion_stats (process_set dir tm s item)) =
            mer_generated (conversion_stats s) + (if r1 then 1 else 0)"
      using m2 d(2) by (cases r1; cases r2; simp add: ps)
    then show ?thesis using r1 by simp
  qed
  show "same_sources (disk s) (disk (process_set dir tm s item))"
    using ss2 same_sources_trans[OF ss2 d(3)] by (simp add: ps)
qed

lemma batch_counts:
  assumes "all_writable (disk s)"
    and "\<forall>item \<in> set items. pbr_sources item"
    and "\<forall>item \<in> set items. \<not> normal_corrupted (disk s) item"
  shows "errors (conversion_stats (foldl (process_set dir tm) s items)) =
           errors (conversion_stats s) +
           int (length (filter (specular_corrupted (disk s)) items)) \<and>
         mer_generated (conversion_stats (foldl (process_set dir tm) s items)) =
           mer_generated (conversion_stats s) +
           int (length (filter (\<lambda>item. map_of (snd item) ''specular'' \<noteq> None \<and>
                                  \<not> specular_corrupted (disk s) item) items))"
  using assms
proof (induction items arbitrary: s)
  case Nil
  then show ?case by simp
next
  case (Cons item items)
  define s1 where "s1 = process_set dir tm s item"
  have w: "all_writable (disk s)" using Cons.prems(1) .
  have src: "pbr_sources item" using Cons.prems(2) by simp
  have n: "\<not> normal_corrupted (disk s) item" using Cons.prems(3) by simp
  note st = process_set_writable[OF w src n, of dir tm, folded s1_def]
  have w1: "all_writable (disk s1)" using same_sources_writable[OF st(3) w] .
  have srcs: "\<forall>it \<in> set items. pbr_sources it" using Cons.prems(2) by simp
  have sc: "\<And>it. it \<in> set items \<Longrightarrow>
              specular_corrupted (disk s1) it = specular_corrupted (disk s) it"
    using same_sources_corrupted(1)[OF st(3)] srcs by blast
  have nc: "\<forall>it \<in> set items. \<not> normal_corrupted (disk s1) it"
    using same_sources_corrupted(2)[OF st(3)] srcs Cons.prems(3) by simp
  have f1: "filter (specular_corrupted (disk s1)) items =
            filter (specular_corrupted (disk s)) items"
    using sc by (intro filter_cong) auto
  have f2: "filter (\<lambda>it. map_of (snd it) ''specular'' \<noteq> None \<and>
                        \<not> specular_corrupted (disk s1) it) items =
            filter (\<lambda>it. map_of (snd it) ''specular'' \<noteq> None \<and>
                        \<not> specular_corrupted (disk s) it) items"
    using sc by (intro filter_cong) auto
  note ih = Cons.IH[OF w1 srcs nc, unfolded f1 f2]
  have fold: "foldl (process_set dir tm) s (item # items) = foldl (process_set dir tm) s1 items"
    by (simp add: s1_def)
  show ?case unfolding fold using ih st(1) st(2) by simp
qed

lemma classify_source:
  "classify p = Some (b, ''specular'') \<Longrightarrow> is_source p"
  "classify p = Some (b, ''normal'') \<Longrightarrow> is_source p"
  by (auto simp: classify_def is_source_def Let_def split: if_splits)

lemma detect_pbr_sources:
  assumes "item \<in> set (detect_pbr_textures fs texture_dir)"
  shows "pbr_sources item"
proof -
  obtain b comps where item: "item = (b, comps)" by (cases item)
  have d: "distinct (map fst (detect_in_files (glob_textures fs texture_dir)))"
    by (rule detect_in_files_distinct)
  have m: "map_of (detect_in_files (glob_textures fs texture_dir)) b = Some comps"
    using assms item d by (simp add: detect_pbr_textures_def)
  from detect_in_files_Some[OF m]
  have l: "\<forall>role. map_of comps role = latest (glob_textures fs texture_dir) b role" by blast
  show ?thesis
    unfolding pbr_sources_def item
    using l by (auto dest!: latest_Some dest: classify_source)
qed

lemma try_open_fails:
  "image_open fs sp = Inl e \<Longrightarrow> specular_try fs sp mp = Inl e"
  "image_open fs sp = Inl e \<Longrightarrow> normal_try fs sp mp = Inl e"
  by (simp_all add: specular_try_def normal_try_def)

text \<open>
  C8. A failure inside a single-image call (a decode error, or any other error of its
  guarded body) is caught there: the call returns False with \<open>errors\<close> one higher and
  nothing else changed. And a batch over a writable disk that discovers three texture
  sets, each with a specular file of which exactly one is corrupted, and no corrupted
  normal file, returns with \<open>errors\<close> one higher and \<open>mer_generated\<close> two higher than
  before: 1 and 2 for a fresh converter.
\<close>

theorem batch_error_isolation:
  assumes "all_writable (disk s)"
    and "length (detect_pbr_textures (disk s) java_textures_dir) = 3"
    and "\<forall>item \<in> set (detect_pbr_textures (disk s) java_textures_dir).
           map_of (snd item) ''specular'' \<noteq> None"
    and "length (filter (specular_corrupted (disk s))
                   (detect_pbr_textures (disk s) java_textures_dir)) = 1"
    and "\<forall>item \<in> set (detect_pbr_textures (disk s) java_textures_dir).
           \<not> normal_corrupted (disk s) item"
    and "convert_pbr_textures s java_textures_dir bedrock_textures_dir texture_mappings = (st, s')"
  shows "errors st = errors (conversion_stats s) + 1 \<and>
         mer_generated st = mer_generated (conversion_stats s) + 2 \<and>
         st = conversion_stats s' \<and>
         (conversion_stats s = init_stats \<longrightarrow> errors st = 1 \<and> mer_generated st = 2) \<and>
         (specular_try (disk s0) sp mp = Inl e \<longrightarrow>
            convert_specular_to_mer s0 sp mp =
              (False, s0\<lparr>conversion_stats := (conversion_stats s0)
                          \<lparr>errors := errors (conversion_stats s0) + 1\<rparr>\<rparr>)) \<and>
         (normal_try (disk s0) sp mp = Inl e \<longrightarrow>
            convert_normal_map s0 sp mp =
              (False, s0\<lparr>conversion_stats := (conversion_stats s0)
                          \<lparr>errors := errors (conversion_stats s0) + 1\<rparr>\<rparr>)) \<and>
         (image_open (disk s0) sp = Inl e \<longrightarrow>
            specular_try (disk s0) sp mp = Inl e \<and> normal_try (disk s0) sp mp = Inl e)"
proof -
  define sets where "sets = detect_pbr_textures (disk s) java_textures_dir"
  have ne: "sets \<noteq> []" using assms(2) unfolding sets_def by auto
  have run: "st = conversion_stats (foldl (process_set bedrock_textures_dir texture_mappings) s sets)
             \<and> s' = foldl (process_set bedrock_textures_dir texture_mappings) s sets"
    using assms(6) ne unfolding convert_pbr_textures_def sets_def[symmetric] Let_def by auto
  have src: "\<forall>item \<in> set sets. pbr_sources item"
    unfolding sets_def using detect_pbr_sources by blast
  have nc: "\<forall>item \<in> set sets. \<not> normal_corrupted (disk s) item"
    using assms(5) unfolding sets_def .
  note bc = batch_counts[OF assms(1) src nc, of bedrock_textures_dir texture_mappings]
  have bad: "length (filter (specular_corrupted (disk s)) sets) = 1"
    using assms(4) unfolding sets_def .
  have "filter (\<lambda>item. map_of (snd item) ''specular'' \<noteq> None \<and>
                         \<not> specular_corrupted (disk s) item) sets =
        filter (\<lambda>item. \<not> specular_corrupted (disk s) item) sets"
    using assms(3) unfolding sets_def[symmetric] by (intro filter_cong) auto
  moreover have "length (filter (specular_corrupted (disk s)) sets) +
                 length (filter (\<lambda>item. \<not> specular_corrupted (disk s) item) sets) = length sets"
    by (rule sum_length_filter_compl)
  ultimately have good:
    "length (filter (\<lambda>item. map_of (snd item) ''specular'' \<noteq> None \<and>
                         \<not> specular_corrupted (disk s) item) sets) = 2"
    using bad assms(2) unfolding sets_def[symmetric] by simp
  have e: "errors st = errors (conversion_stats s) + 1" using bc run bad by simp
  have m: "mer_generated st = mer_generated (conversion_stats s) + 2" using bc run good by simp
  have z: "conversion_stats s = init_stats \<longrightarrow> errors st = 1 \<and> mer_generated st = 2"
    using e m by (simp add: init_stats_def)
  have c1: "specular_try (disk s0) sp mp = Inl e \<longrightarrow>
            convert_specular_to_mer s0 sp mp =
              (False, s0\<lparr>conversion_stats := (conversion_stats s0)
                          \<lparr>errors := errors (conversion_stats s0) + 1\<rparr>\<rparr>)"
    by (simp add: convert_specular_to_mer_def)
  have c2: "normal_try (disk s0) sp mp = Inl e \<longrightarrow>
            convert_normal_map s0 sp mp =
              (False, s0\<lparr>conversion_stats := (conversion_stats s0)
                          \<lparr>errors := errors (conversion_stats s0) + 1\<rparr>\<rparr>)"
    by (simp add: convert_normal_map_def)
  have c3: "image_open (disk s0) sp = Inl e \<longrightarrow>
            specular_try (disk s0) sp mp = Inl e \<and> normal_try (disk s0) sp mp = Inl e"
    by (simp add: try_open_fails)
  from e m run z c1 c2 c3 show ?thesis by blast
qed

lemma example_writable: "all_writable (disk example_state)"
  by (simp add: all_writable_def example_state_def example_disk_def)

lemma example_detect_state:
  "detect_pbr_textures (disk example_state) [''java''] =
     [(''stone'', [(''specular'', stone_s), (''normal'', stone_n)]),
      (''dirt'', [(''specular'', dirt_s)]),
      (''sand'', [(''specular'', sand_s)])]"
  by (simp add: example_state_def example_detect)

lemma example_corrupted:
  "\<not> specular_corrupted (disk example_state) (''stone'', [(''specular'', stone_s), (''normal'', stone_n)])"
  "specular_corrupted (disk example_state) (''dirt'', [(''specular'', dirt_s)])"
  "\<not> specular_corrupted (disk example_state) (''sand'', [(''specular'', sand_s)])"
  "\<not> normal_corrupted (disk example_state) (''stone'', [(''specular'', stone_s), (''normal'', stone_n)])"
  "\<not> normal_corrupted (disk example_state) (''dirt'', [(''specular'', dirt_s)])"
  "\<not> normal_corrupted (disk example_state) (''sand'', [(''specular'', sand_s)])"
  by (simp_all add: specular_corrupted_def normal_corrupted_def image_open_def
        example_state_def example_disk_def example_paths)

theorem batch_error_isolation_witness:
  "all_writable (disk example_state) \<and>
   length (detect_pbr_textures (disk example_state) [''java'']) = 3 \<and>
   length (filter (specular_corrupted (disk example_state))
             (detect_pbr_textures (disk example_state) [''java''])) = 1 \<and>
   errors (fst (convert_pbr_textures example_state [''java''] [''out''] None)) = 1 \<and>
   mer_generated (fst (convert_pbr_textures example_state [''java''] [''out''] None)) = 2"
proof -
  have h2: "length (detect_pbr_textures (disk example_state) [''java'']) = 3"
    by (simp add: example_detect_state)
  have h3: "\<forall>item \<in> set (detect_pbr_textures (disk example_state) [''java'']).
              map_of (snd item) ''specular'' \<noteq> None"
    by (simp add: example_detect_state)
  have h4: "length (filter (specular_corrupted (disk example_state))
                   (detect_pbr_textures (disk example_state) [''java''])) = 1"
    by (simp add: example_detect_state example_corrupted)
  have h5: "\<forall>item \<in> set (detect_pbr_textures (disk example_state) [''java'']).
              \<not> normal_corrupted (disk example_state) item"
    by (simp add: example_detect_state example_corrupted)
  have h6: "convert_pbr_textures example_state [''java''] [''out''] None =
              (fst (convert_pbr_textures example_state [''java''] [''out''] None),
               snd (convert_pbr_textures example_state [''java''] [''out''] None))"
    by simp
  have st: "conversion_stats example_state = init_stats" by (simp add: example_state_def)
  from batch_error_isolation[OF example_writable h2 h3 h4 h5 h6] st
  have "errors (fst (convert_pbr_textures example_state [''java''] [''out''] None)) = 1 \<and>
        mer_generated (fst (convert_pbr_textures example_state [''java''] [''out''] None)) = 2"
    by blast
  with example_writable h2 h4 show ?thesis by blast
qed

end
